theory Spec2Isabelle
  imports Main "HOL-Library.AList"
begin


section \<open>Identifiers\<close>

type_synonym frame_id_t = int
type_synonym page_id_t = int

text \<open>Modelled from the spec: the sentinel page id that denotes "no page". The header
  that declares it is not part of the sources at hand; the spec only requires that it is
  not a valid (non-negative) page id.\<close>
definition INVALID_PAGE_ID :: page_id_t where
  "INVALID_PAGE_ID = - 1"

section \<open>LRU replacer (lru\_replacer.cpp)\<close>

text \<open>
  The members keep their names without the trailing underscore (not an Isabelle name).
  \<open>lru_list\<close> is the \<open>std::list\<close> of frame ids, its front at the head of the HOL list.
  \<open>lru_map\<close> is the \<open>unordered_map\<close> from a frame id to its list position; the model keeps
  its key set, and erasing the position stored for \<open>f\<close> removes the element \<open>f\<close>.
\<close>

record LRUReplacer =
  lru_list :: "frame_id_t list"
  lru_map :: "frame_id_t set"
  max_size :: nat

definition LRUReplacer_init :: "nat \<Rightarrow> LRUReplacer" where
  "LRUReplacer_init num_pages = \<lparr>lru_list = [], lru_map = {}, max_size = num_pages\<rparr>"

definition Victim :: "LRUReplacer \<Rightarrow> frame_id_t option \<times> LRUReplacer" where
  "Victim r =
     (if lru_list r = [] then (None, r)
      else (Some (last (lru_list r)),
            r\<lparr>lru_list := butlast (lru_list r),
              lru_map := lru_map r - {last (lru_list r)}\<rparr>))"

definition Pin :: "frame_id_t \<Rightarrow> LRUReplacer \<Rightarrow> LRUReplacer" where
  "Pin f r =
     (if f \<notin> lru_map r then r
      else r\<lparr>lru_list := remove1 f (lru_list r), lru_map := lru_map r - {f}\<rparr>)"

definition Unpin :: "frame_id_t \<Rightarrow> LRUReplacer \<Rightarrow> LRUReplacer" where
  "Unpin f r =
     (if f \<in> lru_map r then r
      else if length (lru_list r) \<ge> max_size r then r
      else r\<lparr>lru_list := f # lru_list r, lru_map := insert f (lru_map r)\<rparr>)"

definition Size :: "LRUReplacer \<Rightarrow> nat" where
  "Size r = length (lru_list r)"

text \<open>Calls on the replacer, and what each call hands back.\<close>

datatype lru_call = CallVictim | CallPin frame_id_t | CallUnpin frame_id_t | CallSize

datatype lru_out = OutVictim "frame_id_t option" | OutSize nat | OutUnit

fun lru_step :: "lru_call \<Rightarrow> LRUReplacer \<Rightarrow> lru_out \<times> LRUReplacer" where
  "lru_step CallVictim r = (case Victim r of (v, r') \<Rightarrow> (OutVictim v, r'))"
| "lru_step (CallPin f) r = (OutUnit, Pin f r)"
| "lru_step (CallUnpin f) r = (OutUnit, Unpin f r)"
| "lru_step CallSize r = (OutSize (Size r), r)"

fun lru_run :: "lru_call list \<Rightarrow> LRUReplacer \<Rightarrow> lru_out list \<times> LRUReplacer" where
  "lru_run [] r = ([], r)"
| "lru_run (c # cs) r =
     (case lru_step c r of (out, r') \<Rightarrow>
        (case lru_run cs r' of (outs, r'') \<Rightarrow> (out # outs, r'')))"

subsection \<open>The replacer contract in the spec's words\<close>

text \<open>
  The contract speaks of recency of unpinning. The reference model stamps every tracked
  frame with the time of the unpin that inserted it; the victim is the tracked frame with
  the least stamp.
\<close>

record lru_contract =
  tracked :: "(frame_id_t \<times> nat) list"
  clock :: nat
  num_pages :: nat

definition contract_init :: "nat \<Rightarrow> lru_contract" where
  "contract_init n = \<lparr>tracked = [], clock = 0, num_pages = n\<rparr>"

definition contract_unpin :: "frame_id_t \<Rightarrow> lru_contract \<Rightarrow> lru_contract" where
  "contract_unpin f s =
     (if f \<in> fst ` set (tracked s) \<or> length (tracked s) \<ge> num_pages s then s
      else s\<lparr>tracked := (f, clock s) # tracked s, clock := Suc (clock s)\<rparr>)"

definition contract_pin :: "frame_id_t \<Rightarrow> lru_contract \<Rightarrow> lru_contract" where
  "contract_pin f s = s\<lparr>tracked := filter (\<lambda>e. fst e \<noteq> f) (tracked s)\<rparr>"

definition contract_victim :: "lru_contract \<Rightarrow> frame_id_t option \<times> lru_contract" where
  "contract_victim s =
     (if tracked s = [] then (None, s)
      else let f = fst (arg_min_list snd (tracked s))
           in (Some f, s\<lparr>tracked := filter (\<lambda>e. fst e \<noteq> f) (tracked s)\<rparr>))"

fun contract_step :: "lru_call \<Rightarrow> lru_contract \<Rightarrow> lru_out \<times> lru_contract" where
  "contract_step CallVictim s = (case contract_victim s of (v, s') \<Rightarrow> (OutVictim v, s'))"
| "contract_step (CallPin f) s = (OutUnit, contract_pin f s)"
| "contract_step (CallUnpin f) s = (OutUnit, contract_unpin f s)"
| "contract_step CallSize s = (OutSize (length (tracked s)), s)"

fun contract_run :: "lru_call list \<Rightarrow> lru_contract \<Rightarrow> lru_out list \<times> lru_contract" where
  "contract_run [] s = ([], s)"
| "contract_run (c # cs) s =
     (case contract_step c s of (out, s') \<Rightarrow>
        (case contract_run cs s' of (outs, s'') \<Rightarrow> (out # outs, s'')))"

text \<open>The simulation relation between the replacer and the reference model.\<close>

definition lru_sim :: "LRUReplacer \<Rightarrow> lru_contract \<Rightarrow> bool" where
  "lru_sim r s \<longleftrightarrow>
     lru_list r = map fst (tracked s) \<and> lru_map r = set (lru_list r) \<and>
     distinct (lru_list r) \<and> max_size r = num_pages s \<and>
     sorted_wrt (\<lambda>a b. snd b < snd a) (tracked s) \<and>
     list_all (\<lambda>e. snd e < clock s) (tracked s)"

section \<open>Buffer pool manager (buffer\_pool\_manager.cpp)\<close>

subsection \<open>Collaborators\<close>

text \<open>
  A frame of the pool: the class \<open>Page\<close>. Its bytes are kept abstract; \<open>ResetMemory\<close>
  writes the zero value. A fresh \<open>Page\<close> carries the invalid page id, no pin and no dirt.
\<close>

record 'd Page =
  data :: 'd
  page_id :: page_id_t
  pin_count :: int
  is_dirty :: bool

definition Page_init :: "('d::zero) Page" where
  "Page_init = \<lparr>data = 0, page_id = INVALID_PAGE_ID, pin_count = 0, is_dirty = False\<rparr>"

text \<open>
  Modelled from the spec: the disk manager, an external collaborator whose code is not
  part of the sources at hand. It reads and writes fixed-size pages by page id and can be
  told to deallocate a page id. The model keeps the contents of the disk and the list of
  calls it has received, latest last.
\<close>

datatype 'd disk_call =
  CallWritePage page_id_t 'd
| CallReadPage page_id_t
| CallDeallocatePage page_id_t

record 'd DiskManager =
  contents :: "page_id_t \<Rightarrow> 'd"
  calls :: "'d disk_call list"

definition DiskManager_init :: "('d::zero) DiskManager" where
  "DiskManager_init = \<lparr>contents = (\<lambda>_. 0), calls = []\<rparr>"

definition WritePage :: "page_id_t \<Rightarrow> 'd \<Rightarrow> 'd DiskManager \<Rightarrow> 'd DiskManager" where
  "WritePage p d dm = dm\<lparr>contents := (contents dm)(p := d), calls := calls dm @ [CallWritePage p d]\<rparr>"

definition ReadPage :: "page_id_t \<Rightarrow> 'd DiskManager \<Rightarrow> 'd \<times> 'd DiskManager" where
  "ReadPage p dm = (contents dm p, dm\<lparr>calls := calls dm @ [CallReadPage p]\<rparr>)"

definition DeallocatePage :: "page_id_t \<Rightarrow> 'd DiskManager \<Rightarrow> 'd DiskManager" where
  "DeallocatePage p dm = dm\<lparr>calls := calls dm @ [CallDeallocatePage p]\<rparr>"

subsection \<open>State of the pool\<close>

text \<open>
  \<open>page_table\<close> is the \<open>unordered_map\<close> from page ids to frame ids, kept as an association
  list with distinct keys so that \<open>FlushAllPagesImpl\<close> can walk it. \<open>cur_max_page_id\<close> is the
  counter \<open>NewPageImpl\<close> draws page ids from; its first value is set in a header that is not
  part of the sources at hand, so the constructor takes it as a parameter. The mutex
  \<open>latch_\<close> is not modelled: every operation holds it from entry to exit.
\<close>

record 'd BufferPoolManager =
  pool_size :: nat
  pages :: "'d Page list"
  page_table :: "(page_id_t \<times> frame_id_t) list"
  free_list :: "frame_id_t list"
  replacer :: LRUReplacer
  cur_max_page_id :: page_id_t
  disk_manager :: "'d DiskManager"

definition BufferPoolManager_init ::
  "nat \<Rightarrow> ('d::zero) DiskManager \<Rightarrow> page_id_t \<Rightarrow> 'd BufferPoolManager" where
  "BufferPoolManager_init n dm first_page_id =
     \<lparr>pool_size = n, pages = replicate n Page_init, page_table = [],
      free_list = map int [0..<n], replacer = LRUReplacer_init n,
      cur_max_page_id = first_page_id, disk_manager = dm\<rparr>"

text \<open>
  \<open>page_table_[p]\<close> used as a value: \<open>std::unordered_map::operator[]\<close> hands back the
  frame id stored for \<open>p\<close> and, when there is none, first stores the value-initialised
  frame id \<open>0\<close> for \<open>p\<close>.
\<close>

definition subscript ::
  "(page_id_t \<times> frame_id_t) list \<Rightarrow> page_id_t \<Rightarrow> frame_id_t \<times> (page_id_t \<times> frame_id_t) list" where
  "subscript pt p =
     (case map_of pt p of
        Some f \<Rightarrow> (f, pt)
      | None \<Rightarrow> (0, pt @ [(p, 0)]))"

text \<open>\<open>page->field = v\<close> for \<open>page = &pages_[f]\<close>. Frame ids are never negative.\<close>

definition update_page ::
  "frame_id_t \<Rightarrow> ('d Page \<Rightarrow> 'd Page) \<Rightarrow> 'd BufferPoolManager \<Rightarrow> 'd BufferPoolManager" where
  "update_page f g b = b\<lparr>pages := (pages b)[nat f := g (pages b ! nat f)]\<rparr>"

subsection \<open>Operations\<close>

text \<open>
  The search for a host frame, written out twice in the source (in \<open>FetchPageImpl\<close> and in
  \<open>NewPageImpl\<close>, with the same text): the front of the free list first, else a victim of
  the replacer, whose page is written out when dirty and leaves the page table; else
  nothing.
\<close>

definition find_replacement ::
  "'d BufferPoolManager \<Rightarrow> (frame_id_t \<times> 'd BufferPoolManager) option" where
  "find_replacement b =
     (if free_list b \<noteq> [] then
        Some (hd (free_list b), b\<lparr>free_list := tl (free_list b)\<rparr>)
      else
        (case Victim (replacer b) of
           (Some f, r') \<Rightarrow>
             let page = pages b ! nat f;
                 dm' = (if is_dirty page then WritePage (page_id page) (data page) (disk_manager b)
                        else disk_manager b)
             in Some (f, b\<lparr>replacer := r', disk_manager := dm',
                           page_table := AList.delete (page_id page) (page_table b)\<rparr>)
         | (None, r') \<Rightarrow> None))"

text \<open>The result is the frame that holds the page (the \<open>Page *\<close>), or \<open>None\<close> for \<open>nullptr\<close>.\<close>

definition FetchPageImpl ::
  "page_id_t \<Rightarrow> 'd BufferPoolManager \<Rightarrow> frame_id_t option \<times> 'd BufferPoolManager" where
  "FetchPageImpl p b =
     (if map_of (page_table b) p \<noteq> None then
        (case subscript (page_table b) p of (f, pt) \<Rightarrow>
           let b1 = update_page f (\<lambda>pg. pg\<lparr>pin_count := pin_count pg + 1\<rparr>) (b\<lparr>page_table := pt\<rparr>)
           in (Some f, b1\<lparr>replacer := Pin f (replacer b1)\<rparr>))
      else
        (case find_replacement b of
           None \<Rightarrow> (None, b)
         | Some (f, b1) \<Rightarrow>
             let b2 = update_page f (\<lambda>pg. pg\<lparr>page_id := p, pin_count := 1, is_dirty := False\<rparr>) b1;
                 rd = ReadPage p (disk_manager b2);
                 b3 = update_page f (\<lambda>pg. pg\<lparr>data := fst rd\<rparr>) (b2\<lparr>disk_manager := snd rd\<rparr>)
             in (Some f, b3\<lparr>page_table := AList.update p f (page_table b3),
                              replacer := Pin f (replacer b3)\<rparr>)))"

definition UnpinPageImpl ::
  "page_id_t \<Rightarrow> bool \<Rightarrow> 'd BufferPoolManager \<Rightarrow> bool \<times> 'd BufferPoolManager" where
  "UnpinPageImpl p dirty b =
     (if map_of (page_table b) p = None then (False, b)
      else
        (case subscript (page_table b) p of (f, pt) \<Rightarrow>
           let b0 = b\<lparr>page_table := pt\<rparr> in
           if pin_count (pages b0 ! nat f) \<le> 0 then (False, b0)
           else
             let b1 = update_page f (\<lambda>pg. pg\<lparr>pin_count := pin_count pg - 1\<rparr>) b0;
                 b2 = (if dirty then update_page f (\<lambda>pg. pg\<lparr>is_dirty := True\<rparr>) b1 else b1);
                 b3 = (if pin_count (pages b2 ! nat f) \<le> 0
                       then b2\<lparr>replacer := Unpin f (replacer b2)\<rparr> else b2)
             in (True, b3)))"

definition FlushPageImpl ::
  "page_id_t \<Rightarrow> 'd BufferPoolManager \<Rightarrow> bool \<times> 'd BufferPoolManager" where
  "FlushPageImpl p b =
     (if p = INVALID_PAGE_ID then (False, b)
      else
        (case subscript (page_table b) p of (f, pt) \<Rightarrow>
           let b0 = b\<lparr>page_table := pt\<rparr> in
           if map_of (page_table b0) p = None then (False, b0)
           else
             let page = pages b0 ! nat f;
                 b1 = b0\<lparr>disk_manager := WritePage (page_id page) (data page) (disk_manager b0)\<rparr>
             in (True, update_page f (\<lambda>pg. pg\<lparr>is_dirty := False\<rparr>) b1)))"

text \<open>The result is the frame and the new page id, or \<open>None\<close> for \<open>nullptr\<close>.\<close>

definition NewPageImpl ::
  "('d::zero) BufferPoolManager \<Rightarrow> (frame_id_t \<times> page_id_t) option \<times> 'd BufferPoolManager" where
  "NewPageImpl b =
     (case find_replacement b of
        None \<Rightarrow> (None, b)
      | Some (f, b1) \<Rightarrow>
          let p = cur_max_page_id b1;
              b2 = update_page f
                     (\<lambda>pg. pg\<lparr>page_id := p, pin_count := 1, is_dirty := False, data := 0\<rparr>)
                     (b1\<lparr>cur_max_page_id := cur_max_page_id b1 + 1\<rparr>)
          in (Some (f, p), b2\<lparr>page_table := AList.update p f (page_table b2),
                                replacer := Pin f (replacer b2)\<rparr>))"

definition DeletePageImpl ::
  "page_id_t \<Rightarrow> ('d::zero) BufferPoolManager \<Rightarrow> bool \<times> 'd BufferPoolManager" where
  "DeletePageImpl p b =
     (if map_of (page_table b) p = None then (True, b)
      else
        (case subscript (page_table b) p of (f, pt) \<Rightarrow>
           let b0 = b\<lparr>page_table := pt\<rparr>;
               page = pages b0 ! nat f
           in
           if pin_count page \<noteq> 0 then (False, b0)
           else
             let b1 = (if is_dirty page
                       then b0\<lparr>disk_manager := WritePage (page_id page) (data page) (disk_manager b0)\<rparr>
                       else b0);
                 b2 = b1\<lparr>page_table := AList.delete p (page_table b1)\<rparr>;
                 b3 = update_page f
                        (\<lambda>pg. pg\<lparr>page_id := INVALID_PAGE_ID, is_dirty := False, pin_count := 0,
                                 data := 0\<rparr>) b2;
                 b4 = b3\<lparr>free_list := free_list b3 @ [f]\<rparr>
             in (True, b4\<lparr>replacer := Pin f (replacer b4)\<rparr>)))"

text \<open>The loop of \<open>FlushAllPagesImpl\<close> over the entries of the page table.\<close>

fun flush_entries ::
  "(page_id_t \<times> frame_id_t) list \<Rightarrow> 'd BufferPoolManager \<Rightarrow> 'd BufferPoolManager" where
  "flush_entries [] b = b"
| "flush_entries ((p, f) # es) b =
     (let page = pages b ! nat f;
          b1 = b\<lparr>disk_manager := WritePage (page_id page) (data page) (disk_manager b)\<rparr>
      in flush_entries es (update_page f (\<lambda>pg. pg\<lparr>is_dirty := False\<rparr>) b1))"

definition FlushAllPagesImpl :: "'d BufferPoolManager \<Rightarrow> 'd BufferPoolManager" where
  "FlushAllPagesImpl b = flush_entries (page_table b) b"

subsection \<open>The page-table invariant, in the spec's words\<close>

text \<open>
  \<open>page_table\<close> maps \<open>p\<close> to \<open>f\<close> iff frame \<open>f\<close> holds page \<open>p\<close>; the part every entry
  has to satisfy is that the frame it names carries the page id it is filed under.
\<close>

definition entry_ok :: "'d BufferPoolManager \<Rightarrow> page_id_t \<times> frame_id_t \<Rightarrow> bool" where
  "entry_ok b e \<longleftrightarrow>
     0 \<le> snd e \<and> nat (snd e) < length (pages b) \<and> page_id (pages b ! nat (snd e)) = fst e"

definition page_table_ok :: "'d BufferPoolManager \<Rightarrow> bool" where
  "page_table_ok b \<longleftrightarrow> list_all (entry_ok b) (page_table b)"

text \<open>Calls on the pool, for sequences of operations.\<close>

datatype pool_call =
  CallFetch page_id_t
| CallUnpinPage page_id_t bool
| CallNewPage
| CallDeletePage page_id_t
| CallFlush page_id_t
| CallFlushAll

fun pool_step :: "pool_call \<Rightarrow> ('d::zero) BufferPoolManager \<Rightarrow> 'd BufferPoolManager" where
  "pool_step (CallFetch p) b = snd (FetchPageImpl p b)"
| "pool_step (CallUnpinPage p d) b = snd (UnpinPageImpl p d b)"
| "pool_step CallNewPage b = snd (NewPageImpl b)"
| "pool_step (CallDeletePage p) b = snd (DeletePageImpl p b)"
| "pool_step (CallFlush p) b = snd (FlushPageImpl p b)"
| "pool_step CallFlushAll b = FlushAllPagesImpl b"

definition pool_run :: "pool_call list \<Rightarrow> ('d::zero) BufferPoolManager \<Rightarrow> 'd BufferPoolManager" where
  "pool_run cs b = foldl (\<lambda>s c. pool_step c s) b cs"

section \<open>B+ tree node pages (b\_plus\_tree\_internal\_page.cpp)\<close>

datatype ExceptionType = OUT_OF_RANGE | OUT_OF_MEMORY

datatype IndexPageType = INVALID_INDEX_PAGE | LEAF_PAGE | INTERNAL_PAGE

text \<open>
  The header shared by both kinds of node page (class \<open>BPlusTreePage\<close>). The class itself
  is not part of the sources at hand; the fields are named after the accessors through
  which the code reads them.
\<close>

record BPlusTreePage =
  GetPageType :: IndexPageType
  GetSize :: int
  GetMaxSize :: int
  GetParentPageId :: page_id_t
  GetPageId :: page_id_t

definition IsLeafPage :: "'a BPlusTreePage_scheme \<Rightarrow> bool" where
  "IsLeafPage nd \<longleftrightarrow> GetPageType nd = LEAF_PAGE"

text \<open>Modelled from the spec: \<open>IsRootPage\<close>, which is not part of the sources at hand. The
  root is the node without a parent (the spec clears the parent id of a new root).\<close>
definition IsRootPage :: "'a BPlusTreePage_scheme \<Rightarrow> bool" where
  "IsRootPage nd \<longleftrightarrow> GetParentPageId nd = INVALID_PAGE_ID"

text \<open>Modelled from the spec: \<open>GetMinSize\<close>, which is not part of the sources at hand. The
  minimum size is \<open>\<lceil>L/2\<rceil>\<close> for a leaf and \<open>\<lceil>(I+1)/2\<rceil>\<close> for an internal node.\<close>
definition GetMinSize :: "'a BPlusTreePage_scheme \<Rightarrow> int" where
  "GetMinSize nd =
     (if IsLeafPage nd then (GetMaxSize nd + 1) div 2 else (GetMaxSize nd + 2) div 2)"

text \<open>
  An internal page adds the slot array \<open>array_\<close> of (key, child page id) pairs. The array
  fills the rest of the page, so it has slots beyond \<open>GetSize\<close>; the list holds all slots of
  the page. Reads and writes at an index below 0 or beyond the page have no defined
  behaviour in the source; no theorem below depends on them.
\<close>

record 'k BPlusTreeInternalPage = BPlusTreePage +
  array :: "('k \<times> page_id_t) list"

text \<open>The comparator of the generic keys: negative, zero or positive.\<close>

definition comparator :: "'k::linorder \<Rightarrow> 'k \<Rightarrow> int" where
  "comparator a b = (if a < b then - 1 else if a = b then 0 else 1)"

definition Init ::
  "page_id_t \<Rightarrow> page_id_t \<Rightarrow> int \<Rightarrow> 'k BPlusTreeInternalPage \<Rightarrow> 'k BPlusTreeInternalPage" where
  "Init pid parent_id max_sz nd =
     nd\<lparr>GetPageType := INTERNAL_PAGE, GetSize := 0, GetPageId := pid,
        GetParentPageId := parent_id, GetMaxSize := max_sz\<rparr>"

definition KeyAt :: "'k BPlusTreeInternalPage \<Rightarrow> int \<Rightarrow> ExceptionType + 'k" where
  "KeyAt nd index =
     (if index < 0 \<and> index \<ge> GetSize nd then Inl OUT_OF_RANGE
      else Inr (fst (array nd ! nat index)))"

definition SetKeyAt ::
  "'k BPlusTreeInternalPage \<Rightarrow> int \<Rightarrow> 'k \<Rightarrow> ExceptionType + 'k BPlusTreeInternalPage" where
  "SetKeyAt nd index key =
     (if index < 0 \<and> index \<ge> GetSize nd then Inl OUT_OF_RANGE
      else Inr (nd\<lparr>array := (array nd)[nat index := (key, snd (array nd ! nat index))]\<rparr>))"

function ValueIndex_loop :: "'k BPlusTreeInternalPage \<Rightarrow> page_id_t \<Rightarrow> int \<Rightarrow> int" where
  "ValueIndex_loop nd v offset =
     (if offset < GetSize nd then
        (if snd (array nd ! nat offset) = v then offset
         else ValueIndex_loop nd v (offset + 1))
      else offset)"
  by pat_completeness auto
termination
  by (relation "measure (\<lambda>(nd, v, offset). nat (GetSize nd - offset))") auto

declare ValueIndex_loop.simps [simp del]

definition ValueIndex :: "'k BPlusTreeInternalPage \<Rightarrow> page_id_t \<Rightarrow> int" where
  "ValueIndex nd v = ValueIndex_loop nd v 0"

definition ValueAt :: "'k BPlusTreeInternalPage \<Rightarrow> int \<Rightarrow> ExceptionType + page_id_t" where
  "ValueAt nd index =
     (if index < 0 \<and> index \<ge> GetSize nd then Inl OUT_OF_RANGE
      else Inr (snd (array nd ! nat index)))"

text \<open>
  The binary search of \<open>Lookup\<close>. Inside the loop \<open>1 \<le> low \<le> high\<close>, so the C++ division
  \<open>(low + high) / 2\<close> is the HOL \<open>div\<close>.
\<close>

function Lookup_loop ::
  "('k::linorder) BPlusTreeInternalPage \<Rightarrow> 'k \<Rightarrow> int \<Rightarrow> int \<Rightarrow> ExceptionType + page_id_t" where
  "Lookup_loop nd key low high =
     (if low \<le> high then
        (case KeyAt nd ((low + high) div 2) of
           Inl e \<Rightarrow> Inl e
         | Inr k \<Rightarrow>
             if comparator key k = 0 then Inr (snd (array nd ! nat ((low + high) div 2)))
             else if comparator key k > 0 then Lookup_loop nd key ((low + high) div 2 + 1) high
             else Lookup_loop nd key low ((low + high) div 2 - 1))
      else ValueAt nd high)"
  by pat_completeness auto
termination
  by (relation "measure (\<lambda>(nd, key, low, high). nat (high - low + 1))") auto

declare Lookup_loop.simps [simp del]

definition Lookup ::
  "('k::linorder) BPlusTreeInternalPage \<Rightarrow> 'k \<Rightarrow> ExceptionType + page_id_t" where
  "Lookup nd key =
     (case KeyAt nd 1 of
        Inl e \<Rightarrow> Inl e
      | Inr k1 \<Rightarrow>
          if comparator key k1 < 0 then ValueAt nd 0
          else
            (case KeyAt nd (GetSize nd - 1) of
               Inl e \<Rightarrow> Inl e
             | Inr kh \<Rightarrow>
                 if comparator key kh \<ge> 0 then ValueAt nd (GetSize nd - 1)
                 else Lookup_loop nd key 1 (GetSize nd - 1)))"

definition PopulateNewRoot ::
  "page_id_t \<Rightarrow> 'k \<Rightarrow> page_id_t \<Rightarrow> 'k BPlusTreeInternalPage \<Rightarrow> 'k BPlusTreeInternalPage" where
  "PopulateNewRoot old_value new_key new_value nd =
     (if GetSize nd = 0 then
        nd\<lparr>array := (array nd)[0 := (fst (array nd ! 0), old_value), 1 := (new_key, new_value)],
           GetSize := GetSize nd + 2\<rparr>
      else nd)"

function InsertNodeAfter_loop ::
  "'k BPlusTreeInternalPage \<Rightarrow> page_id_t \<Rightarrow> 'k \<Rightarrow> page_id_t \<Rightarrow> int \<Rightarrow> 'k BPlusTreeInternalPage" where
  "InsertNodeAfter_loop nd old_value new_key new_value i =
     (if i \<ge> 0 then
        (if snd (array nd ! nat i) = old_value then
           nd\<lparr>array := (array nd)[nat (i + 1) := (new_key, new_value)], GetSize := GetSize nd + 1\<rparr>
         else
           InsertNodeAfter_loop (nd\<lparr>array := (array nd)[nat (i + 1) := array nd ! nat i]\<rparr>)
             old_value new_key new_value (i - 1))
      else nd)"
  by pat_completeness auto
termination
  by (relation "measure (\<lambda>(nd, old_value, new_key, new_value, i). nat (i + 1))") auto

declare InsertNodeAfter_loop.simps [simp del]

text \<open>\<open>InsertNodeAfter\<close> hands back the new size; the model hands back the page, whose
  \<open>GetSize\<close> is that size.\<close>

definition InsertNodeAfter ::
  "page_id_t \<Rightarrow> 'k \<Rightarrow> page_id_t \<Rightarrow> 'k BPlusTreeInternalPage \<Rightarrow> 'k BPlusTreeInternalPage" where
  "InsertNodeAfter old_value new_key new_value nd =
     InsertNodeAfter_loop nd old_value new_key new_value (GetSize nd - 1)"

function Remove_loop :: "'k BPlusTreeInternalPage \<Rightarrow> int \<Rightarrow> 'k BPlusTreeInternalPage" where
  "Remove_loop nd i =
     (if i < GetSize nd - 1 then
        Remove_loop (nd\<lparr>array := (array nd)[nat i := array nd ! nat (i + 1)]\<rparr>) (i + 1)
      else nd)"
  by pat_completeness auto
termination
  by (relation "measure (\<lambda>(nd, i). nat (GetSize nd - 1 - i))") auto

declare Remove_loop.simps [simp del]

definition Remove ::
  "'k BPlusTreeInternalPage \<Rightarrow> int \<Rightarrow> ExceptionType + 'k BPlusTreeInternalPage" where
  "Remove nd index =
     (if index < 0 \<and> index \<ge> GetSize nd then Inl OUT_OF_RANGE
      else
        (let nd' = Remove_loop nd index in Inr (nd'\<lparr>GetSize := GetSize nd' - 1\<rparr>)))"

definition RemoveAndReturnOnlyChild ::
  "'k BPlusTreeInternalPage \<Rightarrow> (ExceptionType + page_id_t) \<times> 'k BPlusTreeInternalPage" where
  "RemoveAndReturnOnlyChild nd = (ValueAt (nd\<lparr>GetSize := 0\<rparr>) 0, nd\<lparr>GetSize := 0\<rparr>)"

subsection \<open>The accessor contract and the lookup contract, in the spec's words\<close>

text \<open>An index accessor is to raise out-of-range for a slot index that is below 0 or not
  below the size.\<close>

definition invalid_slot :: "'a BPlusTreePage_scheme \<Rightarrow> int \<Rightarrow> bool" where
  "invalid_slot nd index \<longleftrightarrow> index < 0 \<or> index \<ge> GetSize nd"

text \<open>The key and the child in slot \<open>i\<close>, and the order of the keys in slots
  \<open>1..size-1\<close>.\<close>

definition key_at :: "'k BPlusTreeInternalPage \<Rightarrow> int \<Rightarrow> 'k" where
  "key_at nd i = fst (array nd ! nat i)"

definition value_at :: "'k BPlusTreeInternalPage \<Rightarrow> int \<Rightarrow> page_id_t" where
  "value_at nd i = snd (array nd ! nat i)"

definition keys_increasing :: "('k::linorder) BPlusTreeInternalPage \<Rightarrow> bool" where
  "keys_increasing nd \<longleftrightarrow>
     (\<forall>i j. 1 \<le> i \<and> i < j \<and> j < GetSize nd \<longrightarrow> key_at nd i < key_at nd j)"

section \<open>Latch crabbing: the safety test (b\_plus\_tree.cpp)\<close>

datatype Operation = FIND | INSERT | DELETE

definition IsSafe :: "'a BPlusTreePage_scheme \<Rightarrow> Operation \<Rightarrow> bool" where
  "IsSafe nd op =
     (if IsRootPage nd then
        (op = INSERT \<and> GetSize nd < GetMaxSize nd) \<or> (op = DELETE \<and> GetSize nd > 0)
      else if op = INSERT then GetSize nd < GetMaxSize nd
      else if op = DELETE then GetSize nd > GetMinSize nd
      else True)"

text \<open>The safety predicate as the spec words it, for \<open>INSERT\<close> and \<open>DELETE\<close>.\<close>

definition spec_safe :: "'a BPlusTreePage_scheme \<Rightarrow> Operation \<Rightarrow> bool" where
  "spec_safe nd op =
     (if op = INSERT then GetSize nd < GetMaxSize nd
      else if IsRootPage nd then (if IsLeafPage nd then GetSize nd > 0 else GetSize nd > 1)
      else GetSize nd > GetMinSize nd)"

section \<open>B+ tree leaf pages\<close>

text \<open>
  Modelled from the spec: the leaf page and its operations; \<open>b_plus_tree_leaf_page.cpp\<close> is
  not part of the sources at hand. A leaf holds \<open>size\<close> (key, value) pairs, strictly
  increasing by key, and the id of the next leaf. \<open>key_index\<close> is the first slot whose key
  is not below the given key, \<open>lookup\<close> finds the value stored under a key, \<open>insert\<close> puts
  a pair in its place by key order, rejects a key that is there already and hands back
  the size, and \<open>move_half_to\<close> moves the upper half of the slots to the end of another
  leaf.
\<close>

record ('k, 'v) BPlusTreeLeafPage = BPlusTreePage +
  GetNextPageId :: page_id_t
  leaf_array :: "('k \<times> 'v) list"

definition LeafInit ::
  "page_id_t \<Rightarrow> page_id_t \<Rightarrow> int \<Rightarrow> ('k, 'v) BPlusTreeLeafPage \<Rightarrow> ('k, 'v) BPlusTreeLeafPage" where
  "LeafInit pid parent_id max_sz lf =
     lf\<lparr>GetPageType := LEAF_PAGE, GetSize := 0, GetPageId := pid,
        GetParentPageId := parent_id, GetMaxSize := max_sz,
        GetNextPageId := INVALID_PAGE_ID, leaf_array := []\<rparr>"

definition LeafKeyIndex :: "('k::linorder, 'v) BPlusTreeLeafPage \<Rightarrow> 'k \<Rightarrow> nat" where
  "LeafKeyIndex lf key = length (takeWhile (\<lambda>e. fst e < key) (leaf_array lf))"

definition LeafKeyAt :: "('k, 'v) BPlusTreeLeafPage \<Rightarrow> nat \<Rightarrow> 'k" where
  "LeafKeyAt lf i = fst (leaf_array lf ! i)"

definition LeafLookup :: "('k::linorder, 'v) BPlusTreeLeafPage \<Rightarrow> 'k \<Rightarrow> 'v option" where
  "LeafLookup lf key =
     (let i = LeafKeyIndex lf key
      in if i < length (leaf_array lf) \<and> fst (leaf_array lf ! i) = key
         then Some (snd (leaf_array lf ! i)) else None)"

definition LeafInsert ::
  "('k::linorder, 'v) BPlusTreeLeafPage \<Rightarrow> 'k \<Rightarrow> 'v \<Rightarrow> ('k, 'v) BPlusTreeLeafPage" where
  "LeafInsert lf key val =
     (if LeafLookup lf key \<noteq> None then lf
      else
        (let i = LeafKeyIndex lf key
         in lf\<lparr>leaf_array := take i (leaf_array lf) @ (key, val) # drop i (leaf_array lf),
               GetSize := GetSize lf + 1\<rparr>))"

text \<open>The pair of the leaf that gives up its upper half and the leaf that receives it.\<close>

definition LeafMoveHalfTo ::
  "('k, 'v) BPlusTreeLeafPage \<Rightarrow> ('k, 'v) BPlusTreeLeafPage \<Rightarrow>
   ('k, 'v) BPlusTreeLeafPage \<times> ('k, 'v) BPlusTreeLeafPage" where
  "LeafMoveHalfTo lf recipient =
     (let keep = length (leaf_array lf) div 2;
          moved = drop keep (leaf_array lf)
      in (lf\<lparr>leaf_array := take keep (leaf_array lf), GetSize := GetSize lf - int (length moved)\<rparr>,
          recipient\<lparr>leaf_array := leaf_array recipient @ moved,
                    GetSize := GetSize recipient + int (length moved)\<rparr>))"

section \<open>B+ tree (b\_plus\_tree.cpp)\<close>

subsection \<open>State of the tree\<close>

text \<open>
  A node page is a leaf page or an internal page; the constructor stands for the page
  type read from the header.
\<close>

datatype ('k, 'v) node_page =
  LeafNode "('k, 'v) BPlusTreeLeafPage"
| InternalNode "'k BPlusTreeInternalPage"

text \<open>The header accessors on a page of either kind.\<close>

definition node_parent :: "('k, 'v) node_page \<Rightarrow> page_id_t" where
  "node_parent n = (case n of LeafNode lf \<Rightarrow> GetParentPageId lf | InternalNode nd \<Rightarrow> GetParentPageId nd)"

definition node_page_id :: "('k, 'v) node_page \<Rightarrow> page_id_t" where
  "node_page_id n = (case n of LeafNode lf \<Rightarrow> GetPageId lf | InternalNode nd \<Rightarrow> GetPageId nd)"

definition node_is_root :: "('k, 'v) node_page \<Rightarrow> bool" where
  "node_is_root n = (case n of LeafNode lf \<Rightarrow> IsRootPage lf | InternalNode nd \<Rightarrow> IsRootPage nd)"

definition SetParentPageId :: "page_id_t \<Rightarrow> ('k, 'v) node_page \<Rightarrow> ('k, 'v) node_page" where
  "SetParentPageId p n =
     (case n of
        LeafNode lf \<Rightarrow> LeafNode (lf\<lparr>GetParentPageId := p\<rparr>)
      | InternalNode nd \<Rightarrow> InternalNode (nd\<lparr>GetParentPageId := p\<rparr>))"

text \<open>
  The tree reaches its pages through the buffer pool by page id. At this level the pool
  and the disk behind it are one page store, \<open>node_pages\<close>: \<open>FetchPage\<close> hands back the page
  stored under an id and \<open>nullptr\<close> for an id without a page, \<open>NewPage\<close> hands out the next
  page id (the pool is taken to have a frame to spare), and a write to a fetched page is a
  write to the store. Pins are not modelled. \<open>internal_slots\<close> is the
  number of slots of an internal page (the macro \<open>INTERNAL_PAGE_SIZE\<close>, defined in a header
  that is not part of the sources at hand). \<open>header_root\<close> is the record of this index in
  the header page. \<open>write_latched\<close> tells of each page whether its write latch is held, and
  \<open>root_latch\<close> whether the mutex \<open>root_latch_\<close> is locked.
\<close>

record ('k, 'v) BPlusTree =
  root_page_id :: page_id_t
  leaf_max_size :: int
  internal_max_size :: int
  internal_slots :: nat
  node_pages :: "page_id_t \<Rightarrow> ('k, 'v) node_page option"
  next_page_id :: page_id_t
  header_root :: "page_id_t option"
  write_latched :: "page_id_t \<Rightarrow> bool"
  root_latch :: bool

definition BPlusTree_init :: "int \<Rightarrow> int \<Rightarrow> nat \<Rightarrow> page_id_t \<Rightarrow> ('k, 'v) BPlusTree" where
  "BPlusTree_init leaf_max internal_max slots first_page_id =
     \<lparr>root_page_id = INVALID_PAGE_ID, leaf_max_size = leaf_max, internal_max_size = internal_max,
      internal_slots = slots, node_pages = (\<lambda>_. None), next_page_id = first_page_id,
      header_root = None, write_latched = (\<lambda>_. False), root_latch = False\<rparr>"

definition FetchPage :: "('k, 'v) BPlusTree \<Rightarrow> page_id_t \<Rightarrow> ('k, 'v) node_page option" where
  "FetchPage t p = node_pages t p"

definition NewPage :: "('k, 'v) BPlusTree \<Rightarrow> page_id_t \<times> ('k, 'v) BPlusTree" where
  "NewPage t = (next_page_id t, t\<lparr>next_page_id := next_page_id t + 1\<rparr>)"

definition write_page :: "page_id_t \<Rightarrow> ('k, 'v) node_page \<Rightarrow> ('k, 'v) BPlusTree \<Rightarrow> ('k, 'v) BPlusTree" where
  "write_page p n t = t\<lparr>node_pages := (node_pages t)(p := Some n)\<rparr>"

text \<open>A page fresh from \<open>NewPage\<close>: all bytes zero.\<close>

definition blank_internal :: "nat \<Rightarrow> ('k::zero) BPlusTreeInternalPage" where
  "blank_internal slots =
     \<lparr>GetPageType = INVALID_INDEX_PAGE, GetSize = 0, GetMaxSize = 0, GetParentPageId = 0,
      GetPageId = 0, array = replicate slots (0, 0)\<rparr>"

definition blank_leaf :: "('k, 'v) BPlusTreeLeafPage" where
  "blank_leaf =
     \<lparr>GetPageType = INVALID_INDEX_PAGE, GetSize = 0, GetMaxSize = 0, GetParentPageId = 0,
      GetPageId = 0, GetNextPageId = 0, leaf_array = []\<rparr>"

text \<open>Modelled from the spec: the header page keeps the root page id of the index;
  \<open>header_page.cpp\<close> is not part of the sources at hand.\<close>

definition UpdateRootPageId :: "int \<Rightarrow> ('k, 'v) BPlusTree \<Rightarrow> ('k, 'v) BPlusTree" where
  "UpdateRootPageId insert_record t = t\<lparr>header_root := Some (root_page_id t)\<rparr>"

definition IsEmpty :: "('k, 'v) BPlusTree \<Rightarrow> bool" where
  "IsEmpty t \<longleftrightarrow> root_page_id t = INVALID_PAGE_ID"

subsection \<open>Latches and the page set of the transaction\<close>

text \<open>
  Results are of type \<open>(ExceptionType + 'a) option\<close>: \<open>Some (Inr x)\<close> is the value \<open>x\<close>
  handed back, \<open>Some (Inl e)\<close> the exception \<open>e\<close> thrown, and \<open>None\<close> stands for a call
  without a defined result: a loop that does not end, a page used as the kind of page
  it is not, or a request for a latch that is never granted.

  Modelled from the spec: the latch of a page (\<open>page.h\<close> and \<open>rwlatch.h\<close> are not part of
  the sources at hand) admits many readers or one writer, and a request waits until it
  can be granted. The operations run one after the other on one thread, so a request
  for a latch whose write side is held waits for ever: it is \<open>None\<close>. A search takes read
  latches only and has released each of them when the caller is done with the leaf, so
  the model keeps no count of readers: \<open>RLatch\<close> waits on a write latch and otherwise
  leaves the state as it is. \<open>WUnlatch\<close> clears the write side whether it was held or not.
  \<open>lock_root_latch\<close> and \<open>unlock_root_latch\<close> are \<open>root_latch_.lock()\<close> and
  \<open>root_latch_.unlock()\<close>.
\<close>

definition WLatch :: "page_id_t \<Rightarrow> ('k, 'v) BPlusTree \<Rightarrow> ('k, 'v) BPlusTree option" where
  "WLatch p t =
     (if write_latched t p then None
      else Some (t\<lparr>write_latched := (write_latched t)(p := True)\<rparr>))"

definition WUnlatch :: "page_id_t \<Rightarrow> ('k, 'v) BPlusTree \<Rightarrow> ('k, 'v) BPlusTree" where
  "WUnlatch p t = t\<lparr>write_latched := (write_latched t)(p := False)\<rparr>"

definition RLatch :: "page_id_t \<Rightarrow> ('k, 'v) BPlusTree \<Rightarrow> ('k, 'v) BPlusTree option" where
  "RLatch p t = (if write_latched t p then None else Some t)"

definition RUnlatch :: "page_id_t \<Rightarrow> ('k, 'v) BPlusTree \<Rightarrow> ('k, 'v) BPlusTree" where
  "RUnlatch p t = t"

definition lock_root_latch :: "('k, 'v) BPlusTree \<Rightarrow> ('k, 'v) BPlusTree option" where
  "lock_root_latch t = (if root_latch t then None else Some (t\<lparr>root_latch := True\<rparr>))"

definition unlock_root_latch :: "('k, 'v) BPlusTree \<Rightarrow> ('k, 'v) BPlusTree" where
  "unlock_root_latch t = t\<lparr>root_latch := False\<rparr>"

text \<open>
  Modelled from the spec: the transaction handed to an operation carries the set of the
  pages whose latches the operation holds, in the order in which they were latched
  (\<open>transaction.h\<close> is not part of the sources at hand). A transaction is that page set;
  the argument of an operation is \<open>Some\<close> transaction, or \<open>None\<close> for \<open>nullptr\<close>.
\<close>

type_synonym Transaction = "page_id_t list"

definition AddIntoPageSet :: "page_id_t \<Rightarrow> Transaction \<Rightarrow> Transaction" where
  "AddIntoPageSet p ps = ps @ [p]"

text \<open>\<open>UnlockUnpinPages\<close> releases the write latch of every page of the page set and clears
  the set; without a transaction it does nothing.\<close>

definition UnlockUnpinPages ::
  "Transaction option \<Rightarrow> ('k, 'v) BPlusTree \<Rightarrow> ('k, 'v) BPlusTree \<times> Transaction option" where
  "UnlockUnpinPages transaction t =
     (case transaction of
        None \<Rightarrow> (t, None)
      | Some ps \<Rightarrow> (foldl (\<lambda>t1 p. WUnlatch p t1) t ps, Some []))"

subsection \<open>Search\<close>

text \<open>
  \<open>FindLeafPageByOperation\<close> locks \<open>root_latch_\<close>, fetches and latches the root and walks
  down until it is at a leaf; \<open>walk_down\<close> is the loop, at the page with id \<open>p\<close>, which is
  latched. A search (\<open>FIND\<close>) latches the child for reading and lets go of the page; an
  insertion or a deletion latches the child for writing and, when \<open>IsSafe\<close> holds of the
  page it is about to leave, releases the page set and \<open>root_latch_\<close>. The result is the id of
  the leaf, whether \<open>root_latch_\<close> is still locked, the new state and the transaction.
\<close>

partial_function (option) walk_down ::
  "('k::linorder, 'v) BPlusTree \<Rightarrow> 'k \<Rightarrow> Operation \<Rightarrow> Transaction option \<Rightarrow> bool \<Rightarrow> bool \<Rightarrow>
   page_id_t \<Rightarrow> bool \<Rightarrow>
   (ExceptionType + page_id_t \<times> bool \<times> ('k, 'v) BPlusTree \<times> Transaction option) option" where
  "walk_down t key op transaction leftMost rightMost p is_root_latched =
     (case FetchPage t p of
        None \<Rightarrow> None
      | Some (LeafNode lf) \<Rightarrow> Some (Inr (p, is_root_latched, t, transaction))
      | Some (InternalNode nd) \<Rightarrow>
          (case (if leftMost then ValueAt nd 0
                 else if rightMost then ValueAt nd (GetSize nd - 1)
                 else Lookup nd key) of
             Inl e \<Rightarrow> Some (Inl e)
           | Inr child \<Rightarrow>
               (case FetchPage t child of
                  None \<Rightarrow> Some (Inl OUT_OF_MEMORY)
                | Some child_node \<Rightarrow>
                    if op = FIND then
                      (case RLatch child t of
                         None \<Rightarrow> None
                       | Some t1 \<Rightarrow>
                           walk_down
                             (RUnlatch p (if is_root_latched then unlock_root_latch t1 else t1))
                             key op transaction leftMost rightMost child False)
                    else
                      (case WLatch child t of
                         None \<Rightarrow> None
                       | Some t1 \<Rightarrow>
                           if IsSafe nd op then
                             walk_down
                               (if is_root_latched
                                then unlock_root_latch (fst (UnlockUnpinPages transaction t1))
                                else fst (UnlockUnpinPages transaction t1))
                               key op
                               (map_option (AddIntoPageSet child)
                                  (snd (UnlockUnpinPages transaction t1)))
                               leftMost rightMost child False
                           else
                             walk_down t1 key op (map_option (AddIntoPageSet child) transaction)
                               leftMost rightMost child is_root_latched))))"

declare walk_down.simps [code]

definition FindLeafPageByOperation ::
  "('k::linorder, 'v) BPlusTree \<Rightarrow> 'k \<Rightarrow> Operation \<Rightarrow> Transaction option \<Rightarrow> bool \<Rightarrow> bool \<Rightarrow>
   (ExceptionType + page_id_t \<times> bool \<times> ('k, 'v) BPlusTree \<times> Transaction option) option" where
  "FindLeafPageByOperation t key op transaction leftMost rightMost =
     (case lock_root_latch t of
        None \<Rightarrow> None
      | Some t0 \<Rightarrow>
          (case FetchPage t0 (root_page_id t0) of
             None \<Rightarrow> Some (Inl OUT_OF_MEMORY)
           | Some root \<Rightarrow>
               (case (if op = FIND then RLatch (root_page_id t0) t0
                      else WLatch (root_page_id t0) t0) of
                  None \<Rightarrow> None
                | Some t1 \<Rightarrow>
                    (case walk_down t1 key op
                            (map_option (AddIntoPageSet (root_page_id t0)) transaction)
                            leftMost rightMost (root_page_id t0) True of
                       None \<Rightarrow> None
                     | Some (Inl e) \<Rightarrow> Some (Inl e)
                     | Some (Inr (leaf_id, is_root_latched, t2, transaction2)) \<Rightarrow>
                         if op = FIND \<and> is_root_latched
                         then Some (Inr (leaf_id, False, unlock_root_latch t2, transaction2))
                         else Some (Inr (leaf_id, is_root_latched, t2, transaction2))))))"

text \<open>\<open>FindLeafPage\<close> hands back the leaf, read-latched, and the state.\<close>

definition FindLeafPage ::
  "('k::linorder, 'v) BPlusTree \<Rightarrow> 'k \<Rightarrow> bool \<Rightarrow>
   (ExceptionType + page_id_t \<times> ('k, 'v) BPlusTree) option" where
  "FindLeafPage t key leftMost =
     (case FindLeafPageByOperation t key FIND None leftMost False of
        None \<Rightarrow> None
      | Some (Inl e) \<Rightarrow> Some (Inl e)
      | Some (Inr (leaf_id, is_root_latched, t1, transaction1)) \<Rightarrow> Some (Inr (leaf_id, t1)))"

text \<open>
  \<open>GetValue\<close> hands back the value found, or nothing (\<open>false\<close>). It releases the read latch
  of the leaf before it returns; the state it leaves is the state it was called in
  (\<open>FindLeafPage_state\<close> below), so the model hands back the answer only.
\<close>

definition GetValue ::
  "('k::linorder, 'v) BPlusTree \<Rightarrow> 'k \<Rightarrow> (ExceptionType + 'v option) option" where
  "GetValue t key =
     (case FindLeafPage t key False of
        None \<Rightarrow> None
      | Some (Inl e) \<Rightarrow> Some (Inl e)
      | Some (Inr (leaf_id, t1)) \<Rightarrow>
          (case FetchPage t1 leaf_id of
             Some (LeafNode leaf_node) \<Rightarrow> Some (Inr (LeafLookup leaf_node key))
           | _ \<Rightarrow> None))"

subsection \<open>Insertion\<close>

definition StartNewTree :: "'k::linorder \<Rightarrow> 'v \<Rightarrow> ('k, 'v) BPlusTree \<Rightarrow> ('k, 'v) BPlusTree" where
  "StartNewTree key val t =
     (case NewPage t of (pid, t1) \<Rightarrow>
        let t2 = t1\<lparr>root_page_id := pid\<rparr>;
            root = LeafInsert (LeafInit pid INVALID_PAGE_ID (leaf_max_size t2) blank_leaf) key val
        in UpdateRootPageId 1 (write_page pid (LeafNode root) t2))"

text \<open>
  \<open>CopyNFrom\<close>, the loop over the entries handed over: the recipient (the page with id
  \<open>rid\<close>) stores the entry in slot \<open>i\<close> and adopts the child, whose parent id is changed
  through the pool.
\<close>

fun CopyNFrom_loop ::
  "('k, 'v) BPlusTree \<Rightarrow> page_id_t \<Rightarrow> ('k \<times> page_id_t) list \<Rightarrow> int \<Rightarrow>
   (ExceptionType + ('k, 'v) BPlusTree) option" where
  "CopyNFrom_loop t rid [] i = Some (Inr t)"
| "CopyNFrom_loop t rid (item # items) i =
     (case FetchPage t (snd item) of
        None \<Rightarrow> Some (Inl OUT_OF_MEMORY)
      | Some _ \<Rightarrow>
          (case FetchPage t rid of
             Some (InternalNode me) \<Rightarrow>
               let t1 = write_page rid (InternalNode (me\<lparr>array := (array me)[nat i := item]\<rparr>)) t
               in (case FetchPage t1 (snd item) of
                     Some child \<Rightarrow>
                       CopyNFrom_loop
                         (write_page (snd item) (SetParentPageId (GetPageId me) child) t1)
                         rid items (i + 1)
                   | None \<Rightarrow> None)
           | _ \<Rightarrow> None))"

definition CopyNFrom ::
  "('k, 'v) BPlusTree \<Rightarrow> page_id_t \<Rightarrow> ('k \<times> page_id_t) list \<Rightarrow> int \<Rightarrow>
   (ExceptionType + ('k, 'v) BPlusTree) option" where
  "CopyNFrom t rid items sz =
     (case FetchPage t rid of
        Some (InternalNode me) \<Rightarrow>
          (case CopyNFrom_loop t rid items (GetSize me) of
             None \<Rightarrow> None
           | Some (Inl e) \<Rightarrow> Some (Inl e)
           | Some (Inr t1) \<Rightarrow>
               (case FetchPage t1 rid of
                  Some (InternalNode me1) \<Rightarrow>
                    Some (Inr (write_page rid (InternalNode (me1\<lparr>GetSize := GetSize me1 + sz\<rparr>)) t1))
                | _ \<Rightarrow> None))
      | _ \<Rightarrow> None)"

text \<open>\<open>MoveHalfTo\<close> of the internal page with id \<open>p\<close>, to the page with id \<open>rid\<close>.\<close>

definition MoveHalfTo ::
  "('k, 'v) BPlusTree \<Rightarrow> page_id_t \<Rightarrow> page_id_t \<Rightarrow> (ExceptionType + ('k, 'v) BPlusTree) option" where
  "MoveHalfTo t p rid =
     (case FetchPage t p of
        Some (InternalNode me) \<Rightarrow>
          let minsize = (if GetMinSize me < 2 then 2 else GetMinSize me);
              half = GetSize me - minsize
          in (case CopyNFrom t rid (take (nat half) (drop (nat minsize) (array me))) half of
                None \<Rightarrow> None
              | Some (Inl e) \<Rightarrow> Some (Inl e)
              | Some (Inr t1) \<Rightarrow>
                  (case FetchPage t1 p of
                     Some (InternalNode me1) \<Rightarrow>
                       Some (Inr (write_page p (InternalNode (me1\<lparr>GetSize := GetSize me1 + - 1 * half\<rparr>)) t1))
                   | _ \<Rightarrow> None))
      | _ \<Rightarrow> None)"

text \<open>\<open>Split\<close> of the page with id \<open>p\<close>: the id of the new page and the new state. The new
  page is not latched.\<close>

definition Split ::
  "('k::zero, 'v) BPlusTree \<Rightarrow> page_id_t \<Rightarrow>
   (ExceptionType + page_id_t \<times> ('k, 'v) BPlusTree) option" where
  "Split t p =
     (case NewPage t of (new_page_id, t1) \<Rightarrow>
        (case FetchPage t1 p of
           None \<Rightarrow> None
         | Some (LeafNode oldnode) \<Rightarrow>
             let newnode = LeafInit new_page_id (GetParentPageId oldnode) (leaf_max_size t1) blank_leaf;
                 moved = LeafMoveHalfTo oldnode newnode;
                 newnode1 = (snd moved)\<lparr>GetNextPageId := GetNextPageId (fst moved)\<rparr>;
                 oldnode1 = (fst moved)\<lparr>GetNextPageId := GetPageId newnode1\<rparr>
             in Some (Inr (new_page_id,
                           write_page p (LeafNode oldnode1)
                             (write_page new_page_id (LeafNode newnode1) t1)))
         | Some (InternalNode oldnode) \<Rightarrow>
             let newnode = Init new_page_id (GetParentPageId oldnode) (internal_max_size t1)
                             (blank_internal (internal_slots t1));
                 t2 = write_page new_page_id (InternalNode newnode) t1
             in (case MoveHalfTo t2 p new_page_id of
                   None \<Rightarrow> None
                 | Some (Inl e) \<Rightarrow> Some (Inl e)
                 | Some (Inr t3) \<Rightarrow> Some (Inr (new_page_id, t3)))))"

text \<open>The key in slot 0 of the page with id \<open>p\<close>, leaf or internal (\<open>KeyAt(0)\<close>).\<close>

definition first_key :: "('k, 'v) BPlusTree \<Rightarrow> page_id_t \<Rightarrow> (ExceptionType + 'k) option" where
  "first_key t p =
     (case FetchPage t p of
        None \<Rightarrow> None
      | Some (LeafNode lf) \<Rightarrow> (if leaf_array lf = [] then None else Some (Inr (LeafKeyAt lf 0)))
      | Some (InternalNode nd) \<Rightarrow> Some (KeyAt nd 0))"

text \<open>
  \<open>InsertIntoParent\<close> takes the two pages by reference; the model takes their ids in the
  store and reads the pages where the code dereferences the pointers. It releases the
  page set when it has made a new root and when the parent takes the entry without a
  split.
\<close>

partial_function (option) InsertIntoParent ::
  "('k::zero, 'v) BPlusTree \<Rightarrow> page_id_t \<Rightarrow> 'k \<Rightarrow> page_id_t \<Rightarrow> Transaction option \<Rightarrow>
   (ExceptionType + ('k, 'v) BPlusTree \<times> Transaction option) option" where
  "InsertIntoParent t old_ref key new_ref transaction =
     (case (FetchPage t old_ref, FetchPage t new_ref) of
        (Some old_node, Some new_node) \<Rightarrow>
          if node_is_root old_node then
            (case NewPage t of (new_root_page_id, t1) \<Rightarrow>
               let t2 = t1\<lparr>root_page_id := new_root_page_id\<rparr>;
                   new_root = PopulateNewRoot (node_page_id old_node) key (node_page_id new_node)
                                (Init new_root_page_id INVALID_PAGE_ID (internal_max_size t2)
                                   (blank_internal (internal_slots t2)));
                   t3 = UpdateRootPageId 0 (write_page new_root_page_id (InternalNode new_root) t2)
               in (case FetchPage t3 old_ref of
                     None \<Rightarrow> None
                   | Some old_node1 \<Rightarrow>
                       let t4 = write_page old_ref (SetParentPageId new_root_page_id old_node1) t3
                       in (case FetchPage t4 new_ref of
                             None \<Rightarrow> None
                           | Some new_node1 \<Rightarrow>
                               Some (Inr (UnlockUnpinPages transaction
                                            (write_page new_ref
                                               (SetParentPageId new_root_page_id new_node1) t4))))))
          else
            (case FetchPage t (node_parent old_node) of
               None \<Rightarrow> Some (Inl OUT_OF_MEMORY)
             | Some (LeafNode lf) \<Rightarrow> None
             | Some (InternalNode parent) \<Rightarrow>
                 let parent1 = InsertNodeAfter (node_page_id old_node) key (node_page_id new_node) parent;
                     t1 = write_page (node_parent old_node) (InternalNode parent1) t
                 in if GetSize parent1 \<le> GetMaxSize parent1
                    then Some (Inr (UnlockUnpinPages transaction t1))
                    else
                      (case Split t1 (node_parent old_node) of
                         None \<Rightarrow> None
                       | Some (Inl e) \<Rightarrow> Some (Inl e)
                       | Some (Inr (new_parent_ref, t2)) \<Rightarrow>
                           (case first_key t2 new_parent_ref of
                              None \<Rightarrow> None
                            | Some (Inl e) \<Rightarrow> Some (Inl e)
                            | Some (Inr k0) \<Rightarrow>
                                InsertIntoParent t2 (node_parent old_node) k0 new_parent_ref
                                  transaction)))
      | _ \<Rightarrow> None)"

declare InsertIntoParent.simps [code]

text \<open>
  \<open>InsertIntoLeaf\<close> and \<open>Insert\<close> hand back the answer (\<open>true\<close> or \<open>false\<close>), the new state and
  the transaction. When the key is in the leaf already, \<open>InsertIntoLeaf\<close> releases the
  page set; when the leaf takes the pair without a split, it releases the latch of the
  leaf and nothing else (the call of \<open>UnlockUnpinPages\<close> there is commented out); after a
  split it releases the page set once more.
\<close>

definition InsertIntoLeaf ::
  "('k::{linorder,zero}, 'v) BPlusTree \<Rightarrow> 'k \<Rightarrow> 'v \<Rightarrow> Transaction option \<Rightarrow>
   (ExceptionType + bool \<times> ('k, 'v) BPlusTree \<times> Transaction option) option" where
  "InsertIntoLeaf t key val transaction =
     (case FindLeafPageByOperation t key INSERT transaction False False of
        None \<Rightarrow> None
      | Some (Inl e) \<Rightarrow> Some (Inl e)
      | Some (Inr (leaf_id, root_is_latched, t0, transaction0)) \<Rightarrow>
          (case FetchPage t0 leaf_id of
             Some (LeafNode leafp) \<Rightarrow>
               if LeafLookup leafp key \<noteq> None then
                 (case UnlockUnpinPages transaction0 t0 of (t1, transaction1) \<Rightarrow>
                    Some (Inr (False, (if root_is_latched then unlock_root_latch t1 else t1),
                               transaction1)))
               else
                 let leafp1 = LeafInsert leafp key val;
                     t1 = write_page leaf_id (LeafNode leafp1) t0
                 in if GetSize leafp1 \<le> GetMaxSize leafp1 then
                      Some (Inr (True,
                                 WUnlatch leaf_id (if root_is_latched then unlock_root_latch t1 else t1),
                                 transaction0))
                    else
                      (case Split t1 leaf_id of
                         None \<Rightarrow> None
                       | Some (Inl e) \<Rightarrow> Some (Inl e)
                       | Some (Inr (new_leaf_id, t2)) \<Rightarrow>
                           (case first_key t2 new_leaf_id of
                              None \<Rightarrow> None
                            | Some (Inl e) \<Rightarrow> Some (Inl e)
                            | Some (Inr k0) \<Rightarrow>
                                (case InsertIntoParent t2 leaf_id k0 new_leaf_id transaction0 of
                                   None \<Rightarrow> None
                                 | Some (Inl e) \<Rightarrow> Some (Inl e)
                                 | Some (Inr (t3, transaction3)) \<Rightarrow>
                                     (case UnlockUnpinPages transaction3
                                             (if root_is_latched then unlock_root_latch t3 else t3) of
                                        (t4, transaction4) \<Rightarrow>
                                          Some (Inr (True, t4, transaction4))))))
           | _ \<Rightarrow> None))"

text \<open>\<open>Insert\<close> holds \<open>root_latch_\<close> while it tests for the empty tree and starts a new
  one.\<close>

definition Insert ::
  "('k::{linorder,zero}, 'v) BPlusTree \<Rightarrow> 'k \<Rightarrow> 'v \<Rightarrow> Transaction option \<Rightarrow>
   (ExceptionType + bool \<times> ('k, 'v) BPlusTree \<times> Transaction option) option" where
  "Insert t key val transaction =
     (case lock_root_latch t of
        None \<Rightarrow> None
      | Some t0 \<Rightarrow>
          if IsEmpty t0
          then Some (Inr (True, unlock_root_latch (StartNewTree key val t0), transaction))
          else InsertIntoLeaf (unlock_root_latch t0) key val transaction)"

text \<open>A run of insertions with one transaction, one after the other, stopping at an
  exception.\<close>

fun insert_all ::
  "('k::{linorder,zero}, 'v) BPlusTree \<Rightarrow> ('k \<times> 'v) list \<Rightarrow> Transaction option \<Rightarrow>
   (ExceptionType + ('k, 'v) BPlusTree \<times> Transaction option) option" where
  "insert_all t [] transaction = Some (Inr (t, transaction))"
| "insert_all t (kv # kvs) transaction =
     (case Insert t (fst kv) (snd kv) transaction of
        None \<Rightarrow> None
      | Some (Inl e) \<Rightarrow> Some (Inl e)
      | Some (Inr (answer, t1, transaction1)) \<Rightarrow> insert_all t1 kvs transaction1)"

text \<open>The page with a given id read as a leaf.\<close>

definition leaf_at :: "('k, 'v) BPlusTree \<Rightarrow> page_id_t \<Rightarrow> ('k, 'v) BPlusTreeLeafPage option" where
  "leaf_at t p = (case node_pages t p of Some (LeafNode lf) \<Rightarrow> Some lf | _ \<Rightarrow> None)"

section \<open>Index iterator (index\_iterator.cpp)\<close>

text \<open>
  The iterator holds the page it is on (\<open>page_\<close>, by its id) and a slot \<open>index_\<close>; \<open>leaf_\<close>
  is that page read as a leaf. \<open>operator++\<close> does not test the page it fetches, so moving to
  a next leaf that the pool cannot supply has no defined result. The read latch that an
  iterator holds on its page is not modelled.
\<close>

record IndexIterator =
  page :: page_id_t
  index :: int

definition IsEnd :: "('k, 'v) BPlusTree \<Rightarrow> IndexIterator \<Rightarrow> bool option" where
  "IsEnd t it =
     (case leaf_at t (page it) of
        None \<Rightarrow> None
      | Some leaf \<Rightarrow> Some (GetNextPageId leaf = INVALID_PAGE_ID \<and> index it = GetSize leaf))"

definition increment :: "('k, 'v) BPlusTree \<Rightarrow> IndexIterator \<Rightarrow> IndexIterator option" where
  "increment t it =
     (case leaf_at t (page it) of
        None \<Rightarrow> None
      | Some leaf \<Rightarrow>
          let it1 = it\<lparr>index := index it + 1\<rparr>
          in if index it1 = GetSize leaf \<and> GetNextPageId leaf \<noteq> INVALID_PAGE_ID then
               (case leaf_at t (GetNextPageId leaf) of
                  None \<Rightarrow> None
                | Some next_leaf \<Rightarrow> Some (it1\<lparr>page := GetNextPageId leaf, index := 0\<rparr>))
             else Some it1)"

text \<open>\<open>End()\<close>: the iterator one past the last slot of the rightmost leaf.\<close>

definition End :: "('k::{linorder,zero}, 'v) BPlusTree \<Rightarrow> (ExceptionType + IndexIterator) option" where
  "End t =
     (case FindLeafPageByOperation t 0 FIND None False True of
        None \<Rightarrow> None
      | Some (Inl e) \<Rightarrow> Some (Inl e)
      | Some (Inr (leaf_id, is_root_latched, t1, transaction1)) \<Rightarrow>
          (case leaf_at t1 leaf_id of
             None \<Rightarrow> None
           | Some leaf \<Rightarrow> Some (Inr \<lparr>page = leaf_id, index = GetSize leaf\<rparr>)))"

section \<open>The replacer refines its contract\<close>

lemma arg_min_list_decreasing:
  fixes xs :: "('a \<times> nat) list"
  shows "xs \<noteq> [] \<Longrightarrow> sorted_wrt (\<lambda>a b. snd b < snd a) xs \<Longrightarrow> arg_min_list snd xs = last xs"
proof (induction xs)
  case Nil
  then show ?case by simp
next
  case (Cons x xs)
  show ?case
  proof (cases xs)
    case Nil
    then show ?thesis by simp
  next
    case (Cons y ys)
    then have ne: "xs \<noteq> []" by simp
    with Cons.prems Cons.IH have ih: "arg_min_list snd xs = last xs" by simp
    have "last xs \<in> set xs" using ne by simp
    with Cons.prems have lt: "snd (last xs) < snd x" by auto
    have "arg_min_list snd (x # xs) =
            (let m = arg_min_list snd xs in if snd x \<le> snd m then x else m)"
      unfolding Cons by simp
    with ih lt ne show ?thesis by (auto simp: Let_def)
  qed
qed

lemma filter_fst_last:
  "xs \<noteq> [] \<Longrightarrow> distinct (map fst xs) \<Longrightarrow> filter (\<lambda>e. fst e \<noteq> fst (last xs)) xs = butlast xs"
proof (induction xs)
  case Nil
  then show ?case by simp
next
  case (Cons x xs)
  show ?case
  proof (cases "xs = []")
    case True
    then show ?thesis by simp
  next
    case False
    then have "last xs \<in> set xs" by simp
    then have "fst (last xs) \<in> fst ` set xs" by (rule imageI)
    moreover from Cons.prems have "fst x \<notin> fst ` set xs" by simp
    ultimately have "fst x \<noteq> fst (last xs)" by metis
    with Cons False show ?thesis by simp
  qed
qed

lemma filter_fst_remove1:
  "distinct (map fst xs) \<Longrightarrow> map fst (filter (\<lambda>e. fst e \<noteq> f) xs) = remove1 f (map fst xs)"
proof (induction xs)
  case Nil
  then show ?case by simp
next
  case (Cons x xs)
  show ?case
  proof (cases "fst x = f")
    case True
    with Cons.prems have "f \<notin> fst ` set xs" by auto
    then have "filter (\<lambda>e. fst e \<noteq> f) xs = xs" by (auto simp: filter_id_conv)
    with True show ?thesis by simp
  next
    case False
    with Cons show ?thesis by simp
  qed
qed

lemma sorted_wrt_filter_keep: "sorted_wrt P xs \<Longrightarrow> sorted_wrt P (filter Q xs)"
  by (induction xs) auto

lemma lru_sim_init: "lru_sim (LRUReplacer_init n) (contract_init n)"
  by (simp add: lru_sim_def LRUReplacer_init_def contract_init_def)

lemma lru_sim_unpin: "lru_sim r s \<Longrightarrow> lru_sim (Unpin f r) (contract_unpin f s)"
  by (auto simp: lru_sim_def Unpin_def contract_unpin_def list_all_iff)

lemma lru_sim_pin:
  assumes "lru_sim r s"
  shows "lru_sim (Pin f r) (contract_pin f s)"
proof (cases "f \<in> lru_map r")
  case False
  with assms have "f \<notin> fst ` set (tracked s)" by (simp add: lru_sim_def)
  then have "filter (\<lambda>e. fst e \<noteq> f) (tracked s) = tracked s" by (auto simp: filter_id_conv)
  with False assms show ?thesis by (auto simp: lru_sim_def Pin_def contract_pin_def)
next
  case True
  from assms have d: "distinct (map fst (tracked s))" by (auto simp: lru_sim_def)
  from True assms d show ?thesis
    by (auto simp: lru_sim_def Pin_def contract_pin_def list_all_iff filter_fst_remove1
        sorted_wrt_filter_keep)
qed

lemma lru_sim_victim:
  assumes "lru_sim r s"
  shows "fst (Victim r) = fst (contract_victim s) \<and>
         lru_sim (snd (Victim r)) (snd (contract_victim s))"
proof (cases "tracked s = []")
  case True
  with assms show ?thesis by (simp add: lru_sim_def Victim_def contract_victim_def)
next
  case False
  from assms have d: "distinct (map fst (tracked s))"
    and l: "lru_list r = map fst (tracked s)"
    and so: "sorted_wrt (\<lambda>a b. snd b < snd a) (tracked s)"
    by (auto simp: lru_sim_def)
  have am: "arg_min_list snd (tracked s) = last (tracked s)"
    using False so by (rule arg_min_list_decreasing)
  have fl: "filter (\<lambda>e. fst e \<noteq> fst (last (tracked s))) (tracked s) = butlast (tracked s)"
    using False d by (rule filter_fst_last)
  have la: "last (lru_list r) = fst (last (tracked s))"
    using False l by (simp add: last_map)
  have so': "sorted_wrt (\<lambda>a b. snd b < snd a) (butlast (tracked s))"
    using so fl sorted_wrt_filter_keep[of _ "tracked s"] by metis
  have ne: "lru_list r \<noteq> []" using False l by simp
  have "lru_list r = butlast (lru_list r) @ [last (lru_list r)]"
    using ne by simp
  moreover have "distinct (lru_list r)"
    using assms by (auto simp: lru_sim_def)
  ultimately have st: "set (butlast (lru_list r)) = set (lru_list r) - {last (lru_list r)}"
    by (metis Diff_insert_absorb distinct_append not_distinct_conv_prefix set_append
        Un_insert_right sup_bot.right_neutral list.set)
  show ?thesis
    using assms False am fl la so' ne st
    by (auto simp: lru_sim_def Victim_def contract_victim_def Let_def map_butlast distinct_butlast
        list_all_iff dest: in_set_butlastD)
qed

lemma lru_refines_aux:
  "lru_sim r s \<Longrightarrow> fst (lru_run cs r) = fst (contract_run cs s) \<and> lru_sim (snd (lru_run cs r)) (snd (contract_run cs s))"
proof (induction cs arbitrary: r s)
  case Nil
  then show ?case by simp
next
  case (Cons c cs)
  have step: "fst (lru_step c r) = fst (contract_step c s) \<and> lru_sim (snd (lru_step c r)) (snd (contract_step c s))"
  proof (cases c)
    case CallVictim
    then show ?thesis using lru_sim_victim[OF Cons.prems] by (simp add: split_beta)
  next
    case (CallPin f)
    then show ?thesis using lru_sim_pin[OF Cons.prems] by simp
  next
    case (CallUnpin f)
    then show ?thesis using lru_sim_unpin[OF Cons.prems] by simp
  next
    case CallSize
    then show ?thesis using Cons.prems by (auto simp: Size_def lru_sim_def)
  qed
  with Cons.IH[of "snd (lru_step c r)" "snd (contract_step c s)"]
  show ?case by (simp add: split_beta)
qed

text \<open>
  C8. For every sequence of calls on a replacer created with capacity \<open>n\<close>, the replacer
  hands back what the contract does: \<open>unpin f\<close> changes nothing when \<open>f\<close> is tracked or the
  number of tracked frames has reached \<open>n\<close> and otherwise makes \<open>f\<close> the most recently
  unpinned frame; \<open>victim\<close> hands back and removes the tracked frame with the oldest unpin,
  or nothing when no frame is tracked. The frames the replacer tracks are those of the
  contract, in order of recency.
\<close>

theorem lru_replacer_obeys_contract:
  "fst (lru_run cs (LRUReplacer_init n)) = fst (contract_run cs (contract_init n)) \<and>
   lru_list (snd (lru_run cs (LRUReplacer_init n))) =
     map fst (tracked (snd (contract_run cs (contract_init n))))"
  using lru_refines_aux[OF lru_sim_init, of cs n] by (simp add: lru_sim_def)

theorem lru_replacer_obeys_contract_witness:
  "fst (lru_run [CallUnpin 1, CallUnpin 2, CallUnpin 1, CallUnpin 3, CallSize, CallVictim,
                 CallPin 2, CallVictim] (LRUReplacer_init 2)) =
     [OutUnit, OutUnit, OutUnit, OutUnit, OutSize 2, OutVictim (Some 1), OutUnit, OutVictim None]"
  using lru_replacer_obeys_contract
    [of "[CallUnpin 1, CallUnpin 2, CallUnpin 1, CallUnpin 3, CallSize, CallVictim,
          CallPin 2, CallVictim]" 2]
  by (simp add: contract_init_def contract_unpin_def contract_victim_def contract_pin_def Let_def)

section \<open>Buffer pool manager: unpin, flush and delete\<close>

lemma subscript_found: "map_of pt p = Some f \<Longrightarrow> subscript pt p = (f, pt)"
  by (simp add: subscript_def)

lemma subscript_missing: "map_of pt p = None \<Longrightarrow> subscript pt p = (0, pt @ [(p, 0)])"
  by (simp add: subscript_def)

lemma upt_two: "[0..<2] = [0, 1]"
  by (simp add: upt_rec)

lemma replicate_two: "replicate 2 x = [x, x]"
  by (simp add: numeral_2_eq_2)



text \<open>An unpinned frame is tracked by the replacer afterwards when the replacer has room.\<close>

lemma Unpin_tracks:
  "f \<in> lru_map r \<or> length (lru_list r) < max_size r \<Longrightarrow> f \<in> lru_map (Unpin f r)"
  by (auto simp: Unpin_def)

text \<open>
  C1. The page-table invariant does not survive \<open>flush\<close> of a page id that is not mapped.
  In a pool of two frames whose frame 0 holds page 0, the invariant holds and page 7 is not
  mapped; \<open>FlushPageImpl 7\<close> reports success and leaves an entry for page 7 that names
  frame 0, which still holds page 0.
\<close>

theorem FlushPageImpl_unmapped_breaks_page_table:
  "(let b = pool_run [CallNewPage] (BufferPoolManager_init 2 (DiskManager_init :: nat DiskManager) 0);
        b' = snd (FlushPageImpl 7 b)
    in page_table_ok b \<and> map_of (page_table b) 7 = None \<and> fst (FlushPageImpl 7 b) \<and>
       map_of (page_table b') 7 = Some 0 \<and> page_id (pages b' ! 0) = 0 \<and> \<not> page_table_ok b')"
  by (simp add: pool_run_def BufferPoolManager_init_def DiskManager_init_def NewPageImpl_def
      find_replacement_def upt_two replicate_two update_page_def Page_init_def LRUReplacer_init_def Pin_def
      FlushPageImpl_def subscript_def INVALID_PAGE_ID_def page_table_ok_def entry_ok_def
      WritePage_def Let_def)

text \<open>The same in every pool state: the lookup made before the test stores the entry.\<close>

lemma FlushPageImpl_unmapped:
  assumes "p \<noteq> INVALID_PAGE_ID" and "map_of (page_table b) p = None"
  shows "fst (FlushPageImpl p b) \<and> page_table (snd (FlushPageImpl p b)) = page_table b @ [(p, 0)]"
  using assms by (simp add: FlushPageImpl_def subscript_missing update_page_def Let_def)

text \<open>
  C2. \<open>DeletePageImpl\<close> never tells the disk manager to deallocate. In a pool of two frames
  whose frame 0 holds page 0, dirty and unpinned, deleting page 0 succeeds, writes the
  page out, clears the entry and frees the frame; the one call the disk manager has
  received is the write.
\<close>

theorem DeletePageImpl_omits_deallocate:
  "(let b = pool_run [CallNewPage, CallUnpinPage 0 True]
              (BufferPoolManager_init 2 (DiskManager_init :: nat DiskManager) 0);
        r = DeletePageImpl 0 b
    in map_of (page_table b) 0 = Some 0 \<and> pin_count (pages b ! 0) = 0 \<and> is_dirty (pages b ! 0) \<and>
       fst r \<and> map_of (page_table (snd r)) 0 = None \<and> free_list (snd r) = [1, 0] \<and>
       lru_list (replacer (snd r)) = [] \<and> pages (snd r) ! 0 = Page_init \<and>
       calls (disk_manager (snd r)) = [CallWritePage 0 0] \<and>
       CallDeallocatePage 0 \<notin> set (calls (disk_manager (snd r))))"
  by (simp add: pool_run_def BufferPoolManager_init_def DiskManager_init_def NewPageImpl_def
      find_replacement_def upt_two replicate_two update_page_def Page_init_def LRUReplacer_init_def Pin_def
      Unpin_def UnpinPageImpl_def DeletePageImpl_def subscript_def INVALID_PAGE_ID_def
      WritePage_def Let_def)

text \<open>In every pool state the calls made by \<open>DeletePageImpl\<close> are at most one write.\<close>

lemma DeletePageImpl_calls:
  "calls (disk_manager (snd (DeletePageImpl p b))) = calls (disk_manager b) \<or>
   (\<exists>q d. calls (disk_manager (snd (DeletePageImpl p b))) = calls (disk_manager b) @ [CallWritePage q d])"
  by (cases "map_of (page_table b) p")
     (auto simp: DeletePageImpl_def subscript_found update_page_def WritePage_def Let_def)

section \<open>Internal pages: the index accessors and the lookup\<close>

text \<open>
  The bounds test of the accessors is \<open>index < 0 && index >= GetSize()\<close>. With a size that
  is not negative no index satisfies it, so no accessor raises.
\<close>

lemma KeyAt_never_raises: "0 \<le> GetSize nd \<Longrightarrow> KeyAt nd i = Inr (key_at nd i)"
  by (simp add: KeyAt_def key_at_def)

lemma ValueAt_never_raises: "0 \<le> GetSize nd \<Longrightarrow> ValueAt nd i = Inr (value_at nd i)"
  by (simp add: ValueAt_def value_at_def)

lemma SetKeyAt_never_raises: "0 \<le> GetSize nd \<Longrightarrow> \<exists>nd'. SetKeyAt nd i k = Inr nd'"
  by (simp add: SetKeyAt_def)

lemma Remove_never_raises: "0 \<le> GetSize nd \<Longrightarrow> \<exists>nd'. Remove nd i = Inr nd'"
  by (simp add: Remove_def Let_def)

text \<open>
  C9. The index accessors do not raise out-of-range for an invalid slot index. An internal
  page of size 2 (with four slots on the page) is read, written and shrunk at slot 3,
  which is not below the size: \<open>KeyAt\<close> and \<open>ValueAt\<close> hand back the stale contents of the
  slot, \<open>SetKeyAt\<close> overwrites it and \<open>Remove\<close> takes one from the size.
\<close>

theorem accessors_accept_invalid_slot:
  "(let nd = \<lparr>GetPageType = INTERNAL_PAGE, GetSize = 2, GetMaxSize = 4,
                 GetParentPageId = INVALID_PAGE_ID, GetPageId = 3,
                 array = [(0 :: int, 10), (5, 11), (7, 12), (9, 13)]\<rparr>
    in invalid_slot nd 3 \<and> KeyAt nd 3 = Inr 9 \<and> ValueAt nd 3 = Inr 13 \<and>
       SetKeyAt nd 3 4 = Inr (nd\<lparr>array := [(0, 10), (5, 11), (7, 12), (4, 13)]\<rparr>) \<and>
       Remove nd 3 = Inr (nd\<lparr>GetSize := 1\<rparr>))"
  by code_simp

text \<open>The binary search, by induction along the loop.\<close>

lemma comparator_simps:
  "comparator a b = 0 \<longleftrightarrow> a = b" "comparator a b > 0 \<longleftrightarrow> b < a" "comparator a b < 0 \<longleftrightarrow> a < b"
  "comparator a b \<ge> 0 \<longleftrightarrow> b \<le> a"
  by (auto simp: comparator_def)

lemma keys_increasingD:
  "keys_increasing nd \<Longrightarrow> 1 \<le> i \<Longrightarrow> i < j \<Longrightarrow> j < GetSize nd \<Longrightarrow> key_at nd i < key_at nd j"
  by (simp add: keys_increasing_def)

lemma keys_increasing_le:
  "keys_increasing nd \<Longrightarrow> 1 \<le> i \<Longrightarrow> i \<le> j \<Longrightarrow> j < GetSize nd \<Longrightarrow> key_at nd i \<le> key_at nd j"
  using keys_increasingD[of nd i j] by (cases "i = j") auto

lemma Lookup_loop_slot:
  fixes nd :: "('k::linorder) BPlusTreeInternalPage"
  assumes "keys_increasing nd" and "2 \<le> GetSize nd"
    and "key_at nd 1 \<le> k" and "k < key_at nd (GetSize nd - 1)"
    and "1 \<le> low" and "high \<le> GetSize nd - 1"
    and "\<forall>i. 1 \<le> i \<and> i < low \<longrightarrow> key_at nd i \<le> k"
    and "\<forall>i. high < i \<and> i \<le> GetSize nd - 1 \<longrightarrow> k < key_at nd i"
  shows "\<exists>i. 1 \<le> i \<and> i < GetSize nd - 1 \<and> key_at nd i \<le> k \<and> k < key_at nd (i + 1) \<and>
             Lookup_loop nd k low high = Inr (value_at nd i)"
  using assms
proof (induction nd k low high rule: Lookup_loop.induct)
  case (1 nd key low high)
  let ?mid = "(low + high) div 2"
  from "1.prems"(2) have nn: "0 \<le> GetSize nd" by simp
  note KA = KeyAt_never_raises[OF nn]
  note VA = ValueAt_never_raises[OF nn]
  show ?case
  proof (cases "low \<le> high")
    case False
    have h1: "1 \<le> high"
    proof (rule ccontr)
      assume "\<not> 1 \<le> high"
      then have "high < 1 \<and> 1 \<le> GetSize nd - 1" using "1.prems"(2) by simp
      with "1.prems"(8) have "key < key_at nd 1" by blast
      with "1.prems"(3) show False by simp
    qed
    have h2: "high < GetSize nd - 1"
    proof (rule ccontr)
      assume "\<not> high < GetSize nd - 1"
      with "1.prems"(6) False "1.prems"(2) have "1 \<le> GetSize nd - 1 \<and> GetSize nd - 1 < low"
        by simp
      with "1.prems"(7) have "key_at nd (GetSize nd - 1) \<le> key" by blast
      with "1.prems"(4) show False by simp
    qed
    from False h1 have "1 \<le> high \<and> high < low" by simp
    with "1.prems"(7) have a: "key_at nd high \<le> key" by blast
    from h2 have "high < high + 1 \<and> high + 1 \<le> GetSize nd - 1" by simp
    with "1.prems"(8) have b: "key < key_at nd (high + 1)" by blast
    have "Lookup_loop nd key low high = Inr (value_at nd high)"
      using False by (subst Lookup_loop.simps) (simp add: VA)
    with h1 h2 a b have "1 \<le> high \<and> high < GetSize nd - 1 \<and> key_at nd high \<le> key \<and>
          key < key_at nd (high + 1) \<and> Lookup_loop nd key low high = Inr (value_at nd high)"
      by simp
    then show ?thesis by (rule exI)
  next
    case True
    then have m: "low \<le> ?mid" "?mid \<le> high" by simp_all
    with "1.prems"(5,6) have m1: "1 \<le> ?mid" and m2: "?mid \<le> GetSize nd - 1" by simp_all
    consider (eq) "key = key_at nd ?mid" | (gt) "key_at nd ?mid < key" | (lt) "key < key_at nd ?mid"
      by (metis not_less_iff_gr_or_eq)
    then show ?thesis
    proof cases
      case eq
      have "?mid \<noteq> GetSize nd - 1"
      proof
        assume "?mid = GetSize nd - 1"
        then have "key_at nd ?mid = key_at nd (GetSize nd - 1)" by (rule arg_cong)
        with eq "1.prems"(4) show False by (simp del: One_nat_def)
      qed
      with m2 have m3: "?mid < GetSize nd - 1" by simp
      with keys_increasingD[OF "1.prems"(1) m1, of "?mid + 1"] eq
      have "key < key_at nd (?mid + 1)" by simp
      moreover have "Lookup_loop nd key low high = Inr (value_at nd ?mid)"
        using True eq by (subst Lookup_loop.simps) (simp add: KA comparator_simps value_at_def)
      ultimately have "1 \<le> ?mid \<and> ?mid < GetSize nd - 1 \<and> key_at nd ?mid \<le> key \<and>
          key < key_at nd (?mid + 1) \<and> Lookup_loop nd key low high = Inr (value_at nd ?mid)"
        using m1 m3 eq by simp
      then show ?thesis by (rule exI)
    next
      case gt
      have c: "comparator key (key_at nd ?mid) \<noteq> 0" "comparator key (key_at nd ?mid) > 0"
        using gt by (auto simp: comparator_def)
      have p7: "\<forall>i. 1 \<le> i \<and> i < ?mid + 1 \<longrightarrow> key_at nd i \<le> key"
      proof (intro allI impI)
        fix i assume "1 \<le> i \<and> i < ?mid + 1"
        then have "key_at nd i \<le> key_at nd ?mid"
          using keys_increasing_le[OF "1.prems"(1), of i ?mid] m2 by simp
        with gt show "key_at nd i \<le> key" by simp
      qed
      have "\<exists>i. 1 \<le> i \<and> i < GetSize nd - 1 \<and> key_at nd i \<le> key \<and> key < key_at nd (i + 1) \<and>
             Lookup_loop nd key (?mid + 1) high = Inr (value_at nd i)"
        using "1.IH"(1)[OF True KA c(1) c(2) "1.prems"(1-4) _ "1.prems"(6) p7 "1.prems"(8)] m1
        by simp
      moreover have "Lookup_loop nd key low high = Lookup_loop nd key (?mid + 1) high"
        using True c by (subst Lookup_loop.simps) (simp add: KA)
      ultimately show ?thesis by simp
    next
      case lt
      have c: "comparator key (key_at nd ?mid) \<noteq> 0" "\<not> comparator key (key_at nd ?mid) > 0"
        using lt by (auto simp: comparator_def)
      have p8: "\<forall>i. ?mid - 1 < i \<and> i \<le> GetSize nd - 1 \<longrightarrow> key < key_at nd i"
      proof (intro allI impI)
        fix i assume "?mid - 1 < i \<and> i \<le> GetSize nd - 1"
        then have "key_at nd ?mid \<le> key_at nd i"
          using keys_increasing_le[OF "1.prems"(1) m1, of i] by simp
        with lt show "key < key_at nd i" by simp
      qed
      have "\<exists>i. 1 \<le> i \<and> i < GetSize nd - 1 \<and> key_at nd i \<le> key \<and> key < key_at nd (i + 1) \<and>
             Lookup_loop nd key low (?mid - 1) = Inr (value_at nd i)"
        using "1.IH"(2)[OF True KA c(1) c(2) "1.prems"(1-5) _ "1.prems"(7) p8] m2
        by simp
      moreover have "Lookup_loop nd key low high = Lookup_loop nd key low (?mid - 1)"
        using True c by (subst Lookup_loop.simps) (simp add: KA)
      ultimately show ?thesis by simp
    qed
  qed
qed

text \<open>
  C5. For an internal page with at least two slots in use whose keys in slots
  \<open>1..size-1\<close> are strictly increasing, and every key \<open>k\<close>: \<open>Lookup\<close> hands back the child in
  slot 0 if \<open>k\<close> is below the key in slot 1; the child in slot \<open>size-1\<close> if \<open>k\<close> is not
  below the key in that slot; and otherwise the child in a slot \<open>i\<close> with
  \<open>key_at i \<le> k < key_at (i+1)\<close>.
\<close>

theorem Lookup_contract:
  fixes nd :: "('k::linorder) BPlusTreeInternalPage"
  assumes "2 \<le> GetSize nd" and "GetSize nd \<le> int (length (array nd))" and "keys_increasing nd"
  shows "(k < key_at nd 1 \<longrightarrow> Lookup nd k = Inr (value_at nd 0)) \<and>
         (key_at nd (GetSize nd - 1) \<le> k \<longrightarrow> Lookup nd k = Inr (value_at nd (GetSize nd - 1))) \<and>
         (key_at nd 1 \<le> k \<and> k < key_at nd (GetSize nd - 1) \<longrightarrow>
            (\<exists>i. 1 \<le> i \<and> i < GetSize nd - 1 \<and> key_at nd i \<le> k \<and> k < key_at nd (i + 1) \<and>
                 Lookup nd k = Inr (value_at nd i)))"
proof (intro conjI impI)
  from assms(1) have nn: "0 \<le> GetSize nd" by simp
  note KA = KeyAt_never_raises[OF nn]
  note VA = ValueAt_never_raises[OF nn]
  {
  assume "k < key_at nd 1"
  then show "Lookup nd k = Inr (value_at nd 0)"
    by (simp add: Lookup_def KA VA comparator_simps)
  next
  assume a: "key_at nd (GetSize nd - 1) \<le> k"
  have "key_at nd 1 \<le> key_at nd (GetSize nd - 1)"
    using keys_increasing_le[OF assms(3), of 1 "GetSize nd - 1"] assms(1) by simp
  with a have "\<not> k < key_at nd 1" by simp
  with a show "Lookup nd k = Inr (value_at nd (GetSize nd - 1))"
    by (simp add: Lookup_def KA VA comparator_simps)
  next
  assume a: "key_at nd 1 \<le> k \<and> k < key_at nd (GetSize nd - 1)"
  then have "\<not> k < key_at nd 1" "\<not> key_at nd (GetSize nd - 1) \<le> k" by auto
  then have "Lookup nd k = Lookup_loop nd k 1 (GetSize nd - 1)"
    by (simp add: Lookup_def KA comparator_simps)
  moreover have "\<exists>i. 1 \<le> i \<and> i < GetSize nd - 1 \<and> key_at nd i \<le> k \<and> k < key_at nd (i + 1) \<and>
             Lookup_loop nd k 1 (GetSize nd - 1) = Inr (value_at nd i)"
  proof (intro Lookup_loop_slot)
    show "\<forall>i. 1 \<le> i \<and> i < 1 \<longrightarrow> key_at nd i \<le> k" by auto
    show "\<forall>i. GetSize nd - 1 < i \<and> i \<le> GetSize nd - 1 \<longrightarrow> k < key_at nd i" by auto
  qed (use a assms in simp_all)
  ultimately show "\<exists>i. 1 \<le> i \<and> i < GetSize nd - 1 \<and> key_at nd i \<le> k \<and> k < key_at nd (i + 1) \<and>
                 Lookup nd k = Inr (value_at nd i)" by simp
  }
qed

text \<open>The theorem at a page of four slots with keys 10, 20, 30, for the keys 5, 35 and 15.\<close>

theorem Lookup_contract_witness:
  "(let nd = \<lparr>GetPageType = INTERNAL_PAGE, GetSize = 4, GetMaxSize = 4,
                 GetParentPageId = INVALID_PAGE_ID, GetPageId = 3,
                 array = [(0 :: int, 100), (10, 101), (20, 102), (30, 103)]\<rparr>
    in keys_increasing nd \<and> Lookup nd 5 = Inr 100 \<and> Lookup nd 35 = Inr 103 \<and>
       Lookup nd 15 = Inr 101)"
proof -
  define nd where "nd = \<lparr>GetPageType = INTERNAL_PAGE, GetSize = 4, GetMaxSize = 4,
                 GetParentPageId = INVALID_PAGE_ID, GetPageId = 3,
                 array = [(0 :: int, 100), (10, 101), (20, 102), (30, 103)]\<rparr>"
  have sz: "GetSize nd = 4" "int (length (array nd)) = 4" by (simp_all add: nd_def)
  have k: "key_at nd 1 = 10" "key_at nd 2 = 20" "key_at nd 3 = 30"
    by (simp_all add: nd_def key_at_def)
  have v: "value_at nd 0 = 100" "value_at nd 1 = 101" "value_at nd 2 = 102" "value_at nd 3 = 103"
    by (simp_all add: nd_def value_at_def)
  have inc: "keys_increasing nd"
    unfolding keys_increasing_def sz
  proof (intro allI impI)
    fix i j :: int
    assume "1 \<le> i \<and> i < j \<and> j < 4"
    then have "(i = 1 \<and> j = 2) \<or> (i = 1 \<and> j = 3) \<or> (i = 2 \<and> j = 3)" by arith
    then show "key_at nd i < key_at nd j" using k by auto
  qed
  have h1: "2 \<le> GetSize nd" and h2: "GetSize nd \<le> int (length (array nd))"
    by (simp_all add: sz)
  have a: "Lookup nd 5 = Inr 100"
    using Lookup_contract[OF h1 h2 inc, of 5] by (simp add: k v)
  have b: "Lookup nd 35 = Inr 103"
    using Lookup_contract[OF h1 h2 inc, of 35] by (simp add: k v sz)
  from Lookup_contract[OF h1 h2 inc, of 15]
  obtain i where i: "1 \<le> i" "i < 3" "key_at nd i \<le> 15" "Lookup nd 15 = Inr (value_at nd i)"
    by (auto simp: k sz)
  from i(1,2) have "i = 1 \<or> i = 2" by arith
  with i(3) k have "i = 1" by auto
  with i(4) v have c: "Lookup nd 15 = Inr 101" by simp
  from inc a b c show ?thesis by (simp add: nd_def Let_def)
qed

section \<open>The safety test of latch crabbing\<close>

text \<open>
  C3, as the code has it. A node is safe for \<open>INSERT\<close> iff its size is below its maximum
  size, root or not. A non-root node is safe for \<open>DELETE\<close> iff its size is above its
  minimum size; the root is safe for \<open>DELETE\<close> iff its size is above 0, whether it is an
  internal page or a leaf.
\<close>

theorem IsSafe_contract:
  "(IsSafe nd INSERT \<longleftrightarrow> GetSize nd < GetMaxSize nd) \<and>
   (IsSafe nd DELETE \<longleftrightarrow>
      (if IsRootPage nd then 0 < GetSize nd else GetMinSize nd < GetSize nd))"
  by (simp add: IsSafe_def)

text \<open>
  The spec asks for a size above 1 before an internal root is safe for \<open>DELETE\<close>; the code
  calls an internal root of size 1 safe.
\<close>

theorem IsSafe_internal_root_counterexample:
  "IsSafe \<lparr>GetPageType = INTERNAL_PAGE, GetSize = 1, GetMaxSize = 4,
           GetParentPageId = INVALID_PAGE_ID, GetPageId = 3\<rparr> DELETE \<noteq>
   spec_safe \<lparr>GetPageType = INTERNAL_PAGE, GetSize = 1, GetMaxSize = 4,
           GetParentPageId = INVALID_PAGE_ID, GetPageId = 3\<rparr> DELETE"
  by (simp add: IsSafe_def spec_safe_def IsRootPage_def IsLeafPage_def)

text \<open>Everywhere else the two predicates agree.\<close>

lemma IsSafe_agrees_with_spec:
  "op \<noteq> FIND \<Longrightarrow> \<not> (IsRootPage nd \<and> \<not> IsLeafPage nd \<and> op = DELETE \<and> GetSize nd = 1) \<Longrightarrow>
   IsSafe nd op = spec_safe nd op"
  by (cases op) (auto simp: IsSafe_def spec_safe_def)

section \<open>Leaf capacity and the iterator\<close>

text \<open>
  C4. With leaf maximum size 4, a leaf that holds 3 entries takes a fourth without a
  split: \<open>InsertIntoLeaf\<close> splits only when the new size is above the maximum size. After
  the insertion has returned the root is still the leaf, no page has been allocated, and
  the leaf holds 4 entries.
\<close>

theorem InsertIntoLeaf_keeps_full_leaf:
  "(case insert_all (BPlusTree_init 4 4 6 1 :: (int, int) BPlusTree) [(1, 10), (2, 20), (3, 30)]
           (Some []) of
      Some (Inr (t3, transaction3)) \<Rightarrow>
        (case Insert t3 4 40 transaction3 of
           Some (Inr (answer, t4, transaction4)) \<Rightarrow>
             root_page_id t3 = 1 \<and>
             map_option leaf_array (leaf_at t3 1) = Some [(1, 10), (2, 20), (3, 30)] \<and>
             answer \<and> root_page_id t4 = 1 \<and> next_page_id t4 = next_page_id t3 \<and>
             map_option leaf_array (leaf_at t4 1) = Some [(1, 10), (2, 20), (3, 30), (4, 40)] \<and>
             map_option GetMaxSize (leaf_at t4 1) = Some 4
         | _ \<Rightarrow> False)
    | _ \<Rightarrow> False)"
  by code_simp

text \<open>The split comes with the fifth entry: a new leaf (page 2) and a new root (page 3).\<close>

lemma InsertIntoLeaf_splits_above_max:
  "(case insert_all (BPlusTree_init 4 4 6 1 :: (int, int) BPlusTree)
           [(1, 10), (2, 20), (3, 30), (4, 40), (5, 50)] (Some []) of
      Some (Inr (t5, transaction5)) \<Rightarrow>
        root_page_id t5 = 3 \<and>
        map_option leaf_array (leaf_at t5 1) = Some [(1, 10), (2, 20)] \<and>
        map_option leaf_array (leaf_at t5 2) = Some [(3, 30), (4, 40), (5, 50)]
    | _ \<Rightarrow> False)"
  by code_simp

text \<open>In every state, an insertion that leaves the leaf at or below its maximum size
  stores the leaf, releases \<open>root_latch_\<close> and the latch of the leaf, and returns.\<close>

lemma InsertIntoLeaf_no_split:
  assumes "FindLeafPageByOperation t key INSERT transaction False False =
             Some (Inr (leaf_id, root_is_latched, t0, transaction0))"
    and "FetchPage t0 leaf_id = Some (LeafNode leafp)"
    and "LeafLookup leafp key = None"
    and "GetSize (LeafInsert leafp key val) \<le> GetMaxSize (LeafInsert leafp key val)"
  shows "InsertIntoLeaf t key val transaction =
           Some (Inr (True,
                      WUnlatch leaf_id
                        (if root_is_latched
                         then unlock_root_latch
                                (write_page leaf_id (LeafNode (LeafInsert leafp key val)) t0)
                         else write_page leaf_id (LeafNode (LeafInsert leafp key val)) t0),
                      transaction0))"
  using assms by (simp add: InsertIntoLeaf_def Let_def)

text \<open>
  C10. For an iterator at the end of the index (\<open>IsEnd\<close> holds: its leaf has no next leaf
  and its slot is the size of the leaf), \<open>operator++\<close> stays on the leaf and moves the slot
  one beyond the size, and \<open>IsEnd\<close> no longer holds for the iterator it hands back.
\<close>

theorem increment_leaves_end:
  assumes "IsEnd t it = Some True"
  shows "increment t it = Some (it\<lparr>index := index it + 1\<rparr>) \<and>
         IsEnd t (it\<lparr>index := index it + 1\<rparr>) = Some False \<and>
         (\<exists>leaf. leaf_at t (page it) = Some leaf \<and> GetSize leaf < index it + 1)"
  using assms by (auto simp: IsEnd_def increment_def Let_def split: option.splits)

text \<open>The theorem at the tree that holds one key, for the iterator that \<open>End()\<close> hands
  back.\<close>

theorem increment_leaves_end_witness:
  "End (StartNewTree 1 10 (BPlusTree_init 4 4 6 1 :: (int, int) BPlusTree)) =
     Some (Inr \<lparr>page = 1, index = 1\<rparr>) \<and>
   IsEnd (StartNewTree 1 10 (BPlusTree_init 4 4 6 1 :: (int, int) BPlusTree))
     \<lparr>page = 1, index = 1\<rparr> = Some True \<and>
   increment (StartNewTree 1 10 (BPlusTree_init 4 4 6 1 :: (int, int) BPlusTree))
     \<lparr>page = 1, index = 1\<rparr> = Some \<lparr>page = 1, index = 2\<rparr> \<and>
   IsEnd (StartNewTree 1 10 (BPlusTree_init 4 4 6 1 :: (int, int) BPlusTree))
     \<lparr>page = 1, index = 2\<rparr> = Some False"
proof -
  let ?t = "StartNewTree 1 10 (BPlusTree_init 4 4 6 1 :: (int, int) BPlusTree)"
  have e: "End ?t = Some (Inr \<lparr>page = 1, index = 1\<rparr>)" by code_simp
  have h: "IsEnd ?t \<lparr>page = 1, index = 1\<rparr> = Some True" by code_simp
  from increment_leaves_end[OF h] e h show ?thesis by simp
qed

section \<open>Searches, insertions and the latches\<close>

text \<open>
  A search leaves the state as it found it: the walk of \<open>FIND\<close> changes nothing but
  \<open>root_latch_\<close>, which it unlocks when it leaves the root, and \<open>FindLeafPage\<close> hands back
  the state in which it was called.
\<close>

lemma walk_down_FIND:
  assumes "walk_down t key op transaction leftMost rightMost p is_root_latched = Some y"
    and "op = FIND" and "y = Inr (leaf_id, b, t', transaction')"
  shows "t' = (if is_root_latched \<and> \<not> b then unlock_root_latch t else t) \<and>
         transaction' = transaction \<and> (b \<longrightarrow> is_root_latched)"
  using assms
proof (induct rule: walk_down.raw_induct[rotated 1, consumes 1, case_names step])
  case (step walk_down t key op transaction leftMost rightMost p is_root_latched y)
  note op = step(3) and y = step(4)
  show ?case
  proof (cases "FetchPage t p")
    case None
    with step(2) show ?thesis by simp
  next
    case (Some n)
    show ?thesis
    proof (cases n)
      case (LeafNode lf)
      with step(2) y Some show ?thesis by auto
    next
      case (InternalNode nd)
      let ?c = "if leftMost then ValueAt nd 0
                else if rightMost then ValueAt nd (GetSize nd - 1) else Lookup nd key"
      show ?thesis
      proof (cases ?c)
        case (Inl e)
        with step(2) y Some InternalNode show ?thesis by (auto split: if_splits)
      next
        case (Inr child)
        from step(2) Some InternalNode Inr op y
        have w: "walk_down (if is_root_latched then unlock_root_latch t else t)
                   key op transaction leftMost rightMost child False = Some y"
          by (auto simp: RLatch_def RUnlatch_def split: if_splits option.splits)
        from step(1)[OF w op y] show ?thesis
          by (auto simp: unlock_root_latch_def split: if_splits)
      qed
    qed
  qed
qed

lemma FindLeafPage_state:
  assumes "FindLeafPage t key leftMost = Some (Inr (leaf_id, t'))"
  shows "t' = t"
proof -
  from assms obtain b t2 x where
    f: "FindLeafPageByOperation t key FIND None leftMost False = Some (Inr (leaf_id, b, t2, x))"
    and t': "t' = t2"
    by (auto simp: FindLeafPage_def split: option.splits sum.splits)
  from f have r: "\<not> root_latch t"
    by (auto simp: FindLeafPageByOperation_def lock_root_latch_def split: if_splits)
  let ?t0 = "t\<lparr>root_latch := True\<rparr>"
  from f r obtain b1 t1 where
    w: "walk_down ?t0 key FIND None leftMost False (root_page_id t) True = Some (Inr (leaf_id, b1, t1, x))"
    and t2: "t2 = (if b1 then unlock_root_latch t1 else t1)"
    by (auto simp: FindLeafPageByOperation_def lock_root_latch_def RLatch_def
             split: if_splits option.splits sum.splits)
  from walk_down_FIND[OF w refl refl]
  have "t1 = (if \<not> b1 then unlock_root_latch ?t0 else ?t0)" by simp
  with t2 have "t2 = unlock_root_latch ?t0" by (simp add: unlock_root_latch_def)
  also have "\<dots> = t" using r by (simp add: unlock_root_latch_def)
  finally show ?thesis using t' by simp
qed

text \<open>A search in a state in which the write latch of the root page is held does not
  return: it waits for the read latch (or fails, when the pool cannot supply the root).\<close>

lemma GetValue_waits:
  assumes "write_latched t (root_page_id t)"
  shows "GetValue t key = None \<or> GetValue t key = Some (Inl OUT_OF_MEMORY)"
  using assms
  by (auto simp: GetValue_def FindLeafPage_def FindLeafPageByOperation_def lock_root_latch_def
                 RLatch_def split: option.splits sum.splits)

text \<open>
  An insertion that walks through a page of which \<open>IsSafe\<close> does not hold and ends in a
  leaf that takes the pair without a split leaves that page write-latched and in the page
  set: \<open>InsertIntoLeaf\<close> releases the leaf only. At a root with one leaf below it:
\<close>

lemma InsertIntoLeaf_keeps_latch:
  fixes t :: "('k::{linorder,zero}, 'v) BPlusTree"
  assumes "\<not> root_latch t" and "\<not> write_latched t (root_page_id t)"
    and "node_pages t (root_page_id t) = Some (InternalNode nd)"
    and "\<not> IsSafe nd INSERT"
    and "Lookup nd key = Inr child" and "child \<noteq> root_page_id t"
    and "\<not> write_latched t child"
    and "node_pages t child = Some (LeafNode leafp)"
    and "LeafLookup leafp key = None"
    and "GetSize (LeafInsert leafp key val) \<le> GetMaxSize (LeafInsert leafp key val)"
  shows "\<exists>t'. InsertIntoLeaf t key val (Some ps) =
                 Some (Inr (True, t', Some (ps @ [root_page_id t, child]))) \<and>
              write_latched t' (root_page_id t') \<and> GetValue t' key = None"
proof -
  let ?r = "root_page_id t"
  let ?t1 = "t\<lparr>root_latch := True, write_latched := (write_latched t)(?r := True)\<rparr>"
  let ?t2 = "?t1\<lparr>write_latched := (write_latched ?t1)(child := True)\<rparr>"
  have w2: "walk_down ?t2 key INSERT (Some (ps @ [?r, child])) False False child True =
              Some (Inr (child, True, ?t2, Some (ps @ [?r, child])))"
    using assms(8) by (subst walk_down.simps) (simp add: FetchPage_def)
  have w1: "walk_down ?t1 key INSERT (Some (ps @ [?r])) False False ?r True =
              Some (Inr (child, True, ?t2, Some (ps @ [?r, child])))"
    using assms(3,4,5,6,7,8) w2
    by (subst walk_down.simps) (simp add: FetchPage_def WLatch_def AddIntoPageSet_def)
  have f: "FindLeafPageByOperation t key INSERT (Some ps) False False =
             Some (Inr (child, True, ?t2, Some (ps @ [?r, child])))"
    using assms(1,2,3) w1
    by (simp add: FindLeafPageByOperation_def lock_root_latch_def FetchPage_def WLatch_def
                  AddIntoPageSet_def)
  let ?t' = "WUnlatch child (unlock_root_latch
               (write_page child (LeafNode (LeafInsert leafp key val)) ?t2))"
  have "InsertIntoLeaf t key val (Some ps) = Some (Inr (True, ?t', Some (ps @ [?r, child])))"
    using f assms(8,9,10) by (simp add: InsertIntoLeaf_def FetchPage_def Let_def)
  moreover have l: "write_latched ?t' (root_page_id ?t')"
    using assms(6) by (simp add: WUnlatch_def unlock_root_latch_def write_page_def)
  moreover have "\<not> root_latch ?t'" "node_pages ?t' (root_page_id ?t') \<noteq> None"
    using assms(3,6) by (simp_all add: WUnlatch_def unlock_root_latch_def write_page_def)
  then have "GetValue ?t' key = None"
    using l by (auto simp: GetValue_def FindLeafPage_def FindLeafPageByOperation_def
                  lock_root_latch_def RLatch_def FetchPage_def split: option.splits sum.splits)
  ultimately show ?thesis by blast
qed

text \<open>
  C7. Insertion of a key that is not in the tree returns \<open>true\<close>, and the search for the
  key that follows does not return. A tree with leaf maximum size 2 and internal maximum
  size 3 takes the keys 1, 2, 3 and 4, with one transaction: its root (page 3) then has
  three leaves below it, no latch is held, the page set is empty, and every search
  returns. The insertion of key 0 returns \<open>true\<close> and puts the pair in the first leaf,
  which has room for it. It leaves the root page write-latched and in the page set: the
  root holds as many children as it may, so the walk to the leaf keeps its latch, and
  \<open>InsertIntoLeaf\<close> releases the latch of the leaf only. The search for key 0 then waits
  for the read latch of the root page.
\<close>

theorem Insert_then_GetValue_waits:
  "(case insert_all (BPlusTree_init 2 3 4 1 :: (int, int) BPlusTree)
           [(1, 10), (2, 20), (3, 30), (4, 40)] (Some []) of
      Some (Inr (t4, transaction4)) \<Rightarrow>
        root_page_id t4 = 3 \<and>
        map_option (\<lambda>nd. take (nat (GetSize nd)) (map snd (array nd)))
          (case node_pages t4 3 of Some (InternalNode nd) \<Rightarrow> Some nd | _ \<Rightarrow> None) = Some [1, 2, 4] \<and>
        map_option leaf_array (leaf_at t4 1) = Some [(1, 10)] \<and>
        map_option leaf_array (leaf_at t4 2) = Some [(2, 20)] \<and>
        map_option leaf_array (leaf_at t4 4) = Some [(3, 30), (4, 40)] \<and>
        \<not> root_latch t4 \<and> \<not> write_latched t4 1 \<and> \<not> write_latched t4 2 \<and>
        \<not> write_latched t4 3 \<and> \<not> write_latched t4 4 \<and> transaction4 = Some [] \<and>
        GetValue t4 0 = Some (Inr None) \<and> GetValue t4 1 = Some (Inr (Some 10)) \<and>
        (case Insert t4 0 5 transaction4 of
           Some (Inr (answer, t5, transaction5)) \<Rightarrow>
             answer \<and> root_page_id t5 = 3 \<and>
             map_option leaf_array (leaf_at t5 1) = Some [(0, 5), (1, 10)] \<and>
             \<not> root_latch t5 \<and> write_latched t5 3 \<and> transaction5 = Some [3, 1] \<and>
             GetValue t5 0 = None
         | _ \<Rightarrow> False)
    | _ \<Rightarrow> False)"
  by code_simp

end
